theory Spec2Isabelle
  imports Complex_Main
begin

section \<open>Data model\<close>

text \<open>
  Three screens are modelled: \<open>SwapScreen\<close> (\<open>src/screens/SwapScreen.tsx\<close>),
  \<open>EscrowScreen\<close> (the second component of \<open>src/screens/ReceiveScreen.tsx\<close>) and
  \<open>TransactionHistoryScreen\<close> (\<open>src/unnamed/part_001\<close>); line numbers are those of
  these files. The screens read their data through \<open>useWallet()\<close>. The declarations of
  \<open>../types\<close> and \<open>../WalletContext\<close> are not among the sources; the records
  below carry exactly the fields that the screens read or write. Every field is a
  JavaScript string in the screens (balances and amounts are decimal strings such as
  \<open>1,234.56\<close>), so every field is a \<open>string\<close> here. Strings are ASCII in this
  model.
\<close>

record Wallet =
  symbol :: string
  balance :: string
  fiatValue :: string
  color :: string
  icon :: string

record Transaction =
  tx_id :: string
  tx_type :: string
  tx_amount :: string
  tx_currency :: string
  tx_recipient :: string
  tx_date :: string

record Escrow =
  esc_id :: string
  esc_amount :: string
  esc_recipient :: string
  esc_expiryDate :: string
  esc_status :: string

record Contact =
  name :: string
  address :: string

text \<open>
  The state held by the wallet context. \<open>prices\<close> is the object
  \<open>Record<string, number>\<close>: a missing key reads as \<open>undefined\<close> (\<open>None\<close>).
\<close>

record WalletCtx =
  wallets :: "Wallet list"
  prices :: "string \<rightharpoonup> rat"
  transactions :: "Transaction list"
  escrows :: "Escrow list"
  contacts :: "Contact list"

datatype toast_type = success | error | info | warning

section \<open>JavaScript numbers\<close>

text \<open>
  A JavaScript number is an IEEE 754 double: \<open>NaN\<close>, an infinity (\<open>Infinity True\<close>
  is the negative one), the negative zero, or a finite value \<open>Fin x\<close> with \<open>x\<close> the
  rational that the double denotes (\<open>Fin 0\<close> is the positive zero). Arithmetic
  computes the exact result and rounds it to the nearest double, ties to the even
  significand, as the runtime does.
\<close>

datatype jsnum = NaN | Infinity bool | NegZero | Fin rat

definition isNegative :: "jsnum \<Rightarrow> bool" where
  "isNegative a = (case a of NaN \<Rightarrow> False | Infinity s \<Rightarrow> s | NegZero \<Rightarrow> True | Fin x \<Rightarrow> x < 0)"

definition isInfinite :: "jsnum \<Rightarrow> bool" where
  "isInfinite a = (case a of Infinity s \<Rightarrow> True | _ \<Rightarrow> False)"

text \<open>The value and the magnitude of a finite number; both zeros have the value \<open>0\<close>.\<close>

definition valueOf :: "jsnum \<Rightarrow> rat" where
  "valueOf a = (case a of Fin x \<Rightarrow> x | _ \<Rightarrow> 0)"

definition magnitude :: "jsnum \<Rightarrow> rat" where
  "magnitude a = \<bar>valueOf a\<bar>"

definition signedZero :: "bool \<Rightarrow> jsnum" where
  "signedZero neg = (if neg then NegZero else Fin 0)"

text \<open>The number of binary digits of a natural number, and the powers of two.\<close>

fun bitLength :: "nat \<Rightarrow> int" where
  "bitLength n = (if n = 0 then 0 else 1 + bitLength (n div 2))"

declare bitLength.simps [simp del]

definition pow2 :: "int \<Rightarrow> rat" where
  "pow2 e = (if 0 \<le> e then 2 ^ nat e else 1 / 2 ^ nat (- e))"

text \<open>
  \<open>floorLog2 m\<close> is the exponent \<open>e\<close> with \<open>2^e \<le> m < 2^(e+1)\<close>, for \<open>m > 0\<close>.
\<close>

definition floorLog2 :: "rat \<Rightarrow> int" where
  "floorLog2 m = (if 1 \<le> m then bitLength (nat \<lfloor>m\<rfloor>) - 1
                  else - bitLength (nat (\<lceil>1 / m\<rceil> - 1)))"

text \<open>
  The double nearest to the number of sign \<open>neg\<close> and magnitude \<open>m \<ge> 0\<close>. The
  significand has 53 binary digits, so the doubles around \<open>m\<close> are the multiples of
  \<open>2^e\<close> with \<open>e\<close> the exponent of \<open>m\<close> less 52, and not less than \<open>-1074\<close> (the
  subnormal range); a result of \<open>2^1024\<close> or more is an infinity, a result of \<open>0\<close> a
  zero of the sign.
\<close>

definition roundToDouble :: "bool \<Rightarrow> rat \<Rightarrow> jsnum" where
  "roundToDouble neg m =
     (if m = 0 then signedZero neg
      else (let e = max (floorLog2 m) (- 1022) - 52;
                s = m / pow2 e;
                n = \<lfloor>s\<rfloor>;
                fr = s - of_int n;
                n' = (if 1 / 2 < fr \<or> (fr = 1 / 2 \<and> odd n) then n + 1 else n);
                r = of_int n' * pow2 e
            in if pow2 1024 \<le> r then Infinity neg
               else if r = 0 then signedZero neg
               else Fin (if neg then - r else r)))"

text \<open>A number is a double when rounding leaves it as it is.\<close>

definition isDouble :: "jsnum \<Rightarrow> bool" where
  "isDouble a = (case a of Fin x \<Rightarrow> roundToDouble (x < 0) \<bar>x\<bar> = Fin x | _ \<Rightarrow> True)"

text \<open>The operators \<open>*\<close>, \<open>/\<close>, \<open>+\<close>, unary and binary \<open>-\<close>.\<close>

definition num_mul :: "jsnum \<Rightarrow> jsnum \<Rightarrow> jsnum" where
  "num_mul a b =
     (if a = NaN \<or> b = NaN then NaN
      else if isInfinite a \<or> isInfinite b
        then (if (\<not> isInfinite a \<and> magnitude a = 0) \<or> (\<not> isInfinite b \<and> magnitude b = 0)
              then NaN else Infinity (isNegative a \<noteq> isNegative b))
      else roundToDouble (isNegative a \<noteq> isNegative b) (magnitude a * magnitude b))"

definition num_div :: "jsnum \<Rightarrow> jsnum \<Rightarrow> jsnum" where
  "num_div a b =
     (if a = NaN \<or> b = NaN then NaN
      else if isInfinite a
        then (if isInfinite b then NaN else Infinity (isNegative a \<noteq> isNegative b))
      else if isInfinite b then signedZero (isNegative a \<noteq> isNegative b)
      else if magnitude b = 0
        then (if magnitude a = 0 then NaN else Infinity (isNegative a \<noteq> isNegative b))
      else roundToDouble (isNegative a \<noteq> isNegative b) (magnitude a / magnitude b))"

definition num_add :: "jsnum \<Rightarrow> jsnum \<Rightarrow> jsnum" where
  "num_add a b =
     (if a = NaN \<or> b = NaN then NaN
      else if isInfinite a
        then (if isInfinite b \<and> isNegative a \<noteq> isNegative b then NaN else a)
      else if isInfinite b then b
      else (let v = valueOf a + valueOf b in
            if v = 0 then signedZero (isNegative a \<and> isNegative b)
            else roundToDouble (v < 0) \<bar>v\<bar>))"

definition num_neg :: "jsnum \<Rightarrow> jsnum" where
  "num_neg a = (case a of
       NaN \<Rightarrow> NaN
     | Infinity s \<Rightarrow> Infinity (\<not> s)
     | NegZero \<Rightarrow> Fin 0
     | Fin x \<Rightarrow> if x = 0 then NegZero else Fin (- x))"

definition num_sub :: "jsnum \<Rightarrow> jsnum \<Rightarrow> jsnum" where
  "num_sub a b = num_add a (num_neg b)"

text \<open>
  The comparisons \<open><\<close>, \<open>>\<close> and \<open><=\<close>: false when a side is \<open>NaN\<close>; the two
  zeros are equal; the infinities lie outside the finite numbers.
\<close>

definition rank :: "jsnum \<Rightarrow> int" where
  "rank a = (case a of Infinity s \<Rightarrow> (if s then - 1 else 1) | _ \<Rightarrow> 0)"

definition num_lt :: "jsnum \<Rightarrow> jsnum \<Rightarrow> bool" where
  "num_lt a b =
     (a \<noteq> NaN \<and> b \<noteq> NaN
      \<and> (rank a < rank b \<or> (rank a = rank b \<and> valueOf a < valueOf b)))"

definition num_gt :: "jsnum \<Rightarrow> jsnum \<Rightarrow> bool" where
  "num_gt a b = num_lt b a"

definition num_le :: "jsnum \<Rightarrow> jsnum \<Rightarrow> bool" where
  "num_le a b = (a \<noteq> NaN \<and> b \<noteq> NaN \<and> \<not> num_lt b a)"

text \<open>
  \<open>parseFloat\<close> is a built-in of the runtime. The functions below take it as the
  parameter \<open>pf\<close>, so that what is proved of them holds whatever the built-in returns.
  \<open>parseFloat_dec\<close> agrees with the built-in on plain decimal numerals (an optional
  sign, decimal digits and an optional fraction), which is what the examples use: the
  result is the double nearest to the decimal. On any other string it returns \<open>NaN\<close>,
  where the built-in may still read a prefix.
\<close>

definition isDigit :: "char \<Rightarrow> bool" where
  "isDigit c = (c \<in> set ''0123456789'')"

text \<open>The value of a digit is its position in \<open>0123456789\<close>.\<close>

definition digitVal :: "char \<Rightarrow> nat" where
  "digitVal c = length (takeWhile (\<lambda>d. d \<noteq> c) ''0123456789'') mod 10"

text \<open>The value of a run of decimal digits, most significant digit first.\<close>

fun digitsVal :: "nat \<Rightarrow> string \<Rightarrow> nat" where
  "digitsVal acc [] = acc"
| "digitsVal acc (c # cs) = digitsVal (10 * acc + digitVal c) cs"

definition parseUnsigned_dec :: "string \<Rightarrow> jsnum" where
  "parseUnsigned_dec s =
     (let ip = takeWhile isDigit s; r = dropWhile isDigit s in
      if ip = [] then NaN
      else if r = [] then roundToDouble False (of_nat (digitsVal 0 ip))
      else if hd r = CHR ''.'' \<and> tl r \<noteq> [] \<and> list_all isDigit (tl r)
        then roundToDouble False
               (of_nat (digitsVal 0 ip)
                + of_nat (digitsVal 0 (tl r)) / of_nat (10 ^ length (tl r)))
      else NaN)"

definition parseFloat_dec :: "string \<Rightarrow> jsnum" where
  "parseFloat_dec s =
     (case s of
        [] \<Rightarrow> NaN
      | c # cs \<Rightarrow>
          if c = CHR ''-'' then num_neg (parseUnsigned_dec cs)
          else if c = CHR ''+'' then parseUnsigned_dec cs
          else parseUnsigned_dec s)"

text \<open>\<open>s.replace(/,/g, '')\<close>: every comma is removed.\<close>

definition removeCommas :: "string \<Rightarrow> string" where
  "removeCommas s = filter (\<lambda>c. c \<noteq> CHR '','') s"

section \<open>Number formatting\<close>

text \<open>
  \<open>output.toLocaleString(undefined, {minimumFractionDigits: 2, maximumFractionDigits: 6})\<close>
  in the \<open>en-US\<close> locale. The exact value of a finite number is rounded to six
  fractional digits, ties away from zero; trailing zeros of the fraction are dropped as
  long as more than two digits remain; the integer part is grouped in threes by commas;
  a negative number, the negative zero included, has a minus sign. The infinities are
  shown by the infinity sign (three bytes in UTF-8) and \<open>NaN\<close> by its name.
\<close>

definition digitChar :: "nat \<Rightarrow> char" where
  "digitChar d = ''0123456789'' ! (d mod 10)"

fun natToDigits :: "nat \<Rightarrow> string" where
  "natToDigits n = (if n < 10 then [digitChar n]
                    else natToDigits (n div 10) @ [digitChar (n mod 10)])"

declare natToDigits.simps [simp del]

definition padStart :: "nat \<Rightarrow> string \<Rightarrow> string" where
  "padStart k s = replicate (k - length s) (CHR ''0'') @ s"

fun dropTrailingZeros :: "nat \<Rightarrow> string \<Rightarrow> string" where
  "dropTrailingZeros k [] = []"
| "dropTrailingZeros k (c # cs) =
     (if k < length (c # cs) \<and> last (c # cs) = CHR ''0''
      then dropTrailingZeros k (butlast (c # cs)) else c # cs)"

declare dropTrailingZeros.simps [simp del]

fun groupDigits :: "string \<Rightarrow> string" where
  "groupDigits s = (if length s \<le> 3 then s
     else groupDigits (take (length s - 3) s) @ '','' @ drop (length s - 3) s)"

declare groupDigits.simps [simp del]

text \<open>The magnitude of \<open>x\<close> in millionths, rounded half away from zero.\<close>

definition roundMicros :: "rat \<Rightarrow> nat" where
  "roundMicros x = nat \<lfloor>\<bar>x\<bar> * 1000000 + 1 / 2\<rfloor>"

definition fractionDigits :: "rat \<Rightarrow> string" where
  "fractionDigits x =
     dropTrailingZeros 2 (padStart 6 (natToDigits (roundMicros x mod 1000000)))"

definition formatFinite :: "bool \<Rightarrow> rat \<Rightarrow> string" where
  "formatFinite neg x =
     (if neg then ''-'' else [])
     @ groupDigits (natToDigits (roundMicros x div 1000000))
     @ ''.'' @ fractionDigits x"

definition toLocaleString :: "jsnum \<Rightarrow> string" where
  "toLocaleString a =
     (case a of
        NaN \<Rightarrow> ''NaN''
      | Infinity s \<Rightarrow> (if s then ''-'' else []) @ [CHR 0xE2, CHR 0x88, CHR 0x9E]
      | NegZero \<Rightarrow> formatFinite True 0
      | Fin x \<Rightarrow> formatFinite (x < 0) x)"

section \<open>Swap screen\<close>

text \<open>
  The expression \<open>prices[symbol] || 1\<close> of the swap estimate and of the statistics:
  \<open>||\<close> takes its right operand when the left one is falsy, which for a number read
  from \<open>prices\<close> is \<open>undefined\<close> and \<open>0\<close>. The stored rates are finite doubles,
  held by their values.
\<close>

definition getRate :: "(string \<rightharpoonup> rat) \<Rightarrow> string \<Rightarrow> rat" where
  "getRate ps k = (case ps k of None \<Rightarrow> 1 | Some r \<Rightarrow> if r = 0 then 1 else r)"

text \<open>The \<open>useState\<close> cells of \<open>SwapScreen\<close>.\<close>

record SwapScreen =
  fromAsset :: Wallet
  toAsset :: Wallet
  amount :: string
  estimatedOutput :: string
  useMesh :: bool

text \<open>
  The number \<open>output\<close> of the effect at lines 19 to 28, computed when the guard
  \<open>amount && parseFloat(amount) > 0\<close> holds (\<open>None\<close> when it does not): the product
  and the quotient are those of doubles.
\<close>

definition quoteOutput :: "(string \<Rightarrow> jsnum) \<Rightarrow> (string \<rightharpoonup> rat) \<Rightarrow> SwapScreen \<Rightarrow> jsnum option" where
  "quoteOutput pf ps st =
     (if amount st \<noteq> [] \<and> num_gt (pf (amount st)) (Fin 0)
      then (let fromRate = getRate ps (symbol (fromAsset st));
                toRate = getRate ps (symbol (toAsset st))
            in Some (num_div (num_mul (pf (amount st)) (Fin fromRate)) (Fin toRate)))
      else None)"

text \<open>The effect itself: it stores the formatted output, or \<open>0.00\<close>.\<close>

definition updateEstimate :: "(string \<Rightarrow> jsnum) \<Rightarrow> (string \<rightharpoonup> rat) \<Rightarrow> SwapScreen \<Rightarrow> SwapScreen" where
  "updateEstimate pf ps st =
     (case quoteOutput pf ps st of
        Some output \<Rightarrow> st\<lparr>estimatedOutput := toLocaleString output\<rparr>
      | None \<Rightarrow> st\<lparr>estimatedOutput := ''0.00''\<rparr>)"

text \<open>
  What a handler does besides updating its own screen state: the calls it makes to the
  functions of the wallet context and to the toast, the console and the navigation, in
  the order of the calls.
\<close>

datatype effect =
    CallSwapAssets string string jsnum
  | CallCreateEscrow Escrow
  | CallCreateEscrowOnChain string string
  | CallReleaseEscrow string
  | ShowToast string toast_type
  | ConsoleWarn string
  | OnBack

text \<open>
  \<open>handleSwap\<close>, lines 30 to 44. \<open>swapAssets\<close> belongs to the wallet context,
  which is not among the sources: it is a parameter, applied to the context state.
\<close>

definition handleSwap ::
  "(string \<Rightarrow> jsnum) \<Rightarrow> (string \<Rightarrow> string \<Rightarrow> jsnum \<Rightarrow> WalletCtx \<Rightarrow> WalletCtx)
   \<Rightarrow> WalletCtx \<Rightarrow> SwapScreen \<Rightarrow> WalletCtx \<times> SwapScreen \<times> effect list" where
  "handleSwap pf swapAssets ctx st =
     (if amount st = [] \<or> num_le (pf (amount st)) (Fin 0)
      then (ctx, st, [ShowToast ''Please enter a valid amount'' error])
      else if num_gt (pf (amount st)) (pf (removeCommas (balance (fromAsset st))))
      then (ctx, st, [ShowToast ''Insufficient balance'' error])
      else (swapAssets (symbol (fromAsset st)) (symbol (toAsset st)) (pf (amount st)) ctx,
            st\<lparr>amount := []\<rparr>,
            [CallSwapAssets (symbol (fromAsset st)) (symbol (toAsset st)) (pf (amount st)),
             OnBack]))"

section \<open>Escrow screen\<close>

text \<open>The \<open>useState\<close> cells of \<open>EscrowScreen\<close>.\<close>

record EscrowScreen =
  activeTab :: string
  e_amount :: string
  e_recipient :: string
  e_currency :: string
  showHelp :: bool

text \<open>\<open>Date.now().toString().slice(-6)\<close>: the last six decimal digits of the clock.\<close>

definition newId :: "nat \<Rightarrow> string" where
  "newId nowMs = (let s = natToDigits nowMs in drop (length s - 6) s)"

text \<open>The object passed to \<open>createEscrow\<close>, lines 273 to 279.\<close>

definition newEscrow :: "nat \<Rightarrow> EscrowScreen \<Rightarrow> Escrow" where
  "newEscrow nowMs sc =
     \<lparr>esc_id = newId nowMs,
      esc_amount = e_amount sc @ '' '' @ e_currency sc,
      esc_recipient = e_recipient sc,
      esc_expiryDate = ''7 Days'',
      esc_status = ''pending''\<rparr>"

text \<open>
  \<open>contacts.find(c => c.name === recipient)\<close> and \<open>contact?.address || recipient\<close>:
  the address of the first contact of that name, the recipient itself when there is no
  such contact or its address is the empty string.
\<close>

definition recipientAddress :: "Contact list \<Rightarrow> string \<Rightarrow> string" where
  "recipientAddress cs r =
     (case find (\<lambda>c. name c = r) cs of
        None \<Rightarrow> r
      | Some c \<Rightarrow> if address c = [] then r else address c)"

text \<open>
  \<open>handleCreateEscrow\<close>, lines 265 to 292. \<open>createEscrow\<close> and
  \<open>createEscrowOnChain\<close> belong to the wallet context and are parameters. The
  on-chain call returns \<open>Inl e\<close> when its promise rejects with \<open>e\<close>, which the
  handler catches; a rejected call is taken to leave the context state as it found it.
\<close>

definition handleCreateEscrow ::
  "(Escrow \<Rightarrow> WalletCtx \<Rightarrow> WalletCtx) \<Rightarrow> (string \<Rightarrow> string \<Rightarrow> WalletCtx \<Rightarrow> string + WalletCtx)
   \<Rightarrow> nat \<Rightarrow> WalletCtx \<Rightarrow> EscrowScreen \<Rightarrow> WalletCtx \<times> EscrowScreen \<times> effect list" where
  "handleCreateEscrow createEscrow createEscrowOnChain nowMs ctx sc =
     (let esc = newEscrow nowMs sc;
          ctx1 = createEscrow esc ctx;
          recipientAddr = recipientAddress (contacts ctx) (e_recipient sc);
          calls = [CallCreateEscrow esc, CallCreateEscrowOnChain recipientAddr (e_amount sc)];
          done = [ShowToast ''Escrow Created Successfully'' success]
      in case createEscrowOnChain recipientAddr (e_amount sc) ctx1 of
           Inl e \<Rightarrow> (ctx1, sc\<lparr>activeTab := ''active''\<rparr>,
                     calls @ [ConsoleWarn ''On-chain escrow simulated''] @ done)
         | Inr ctx2 \<Rightarrow> (ctx2, sc\<lparr>activeTab := ''active''\<rparr>, calls @ done))"

text \<open>\<open>handleAction\<close>, lines 294 to 305.\<close>

datatype action = sign | dispute | release

definition handleAction ::
  "(string \<Rightarrow> WalletCtx \<Rightarrow> WalletCtx) \<Rightarrow> string \<Rightarrow> action \<Rightarrow> WalletCtx
   \<Rightarrow> WalletCtx \<times> effect list" where
  "handleAction releaseEscrow i a ctx =
     (case a of
        sign \<Rightarrow> (ctx, [ShowToast ''Escrow Signed & Approved'' success])
      | dispute \<Rightarrow> (ctx, [ShowToast ''Dispute Opened (Stubborn Mode)'' warning])
      | release \<Rightarrow> (releaseEscrow i ctx, [CallReleaseEscrow i, ShowToast ''Funds Released'' success]))"

text \<open>
  The list of the \<open>active\<close> tab, lines 409 to 458: the ids of the escrows for which the
  Sign button is rendered.
\<close>

definition signOffered :: "WalletCtx \<Rightarrow> string list" where
  "signOffered ctx = map esc_id (filter (\<lambda>e. esc_status e = ''pending'') (escrows ctx))"

section \<open>Strings\<close>

text \<open>\<open>toLowerCase\<close> on ASCII letters.\<close>

definition lowerChar :: "char \<Rightarrow> char" where
  "lowerChar c =
     (case map_of (zip ''ABCDEFGHIJKLMNOPQRSTUVWXYZ'' ''abcdefghijklmnopqrstuvwxyz'') c of
        None \<Rightarrow> c | Some l \<Rightarrow> l)"

definition toLowerCase :: "string \<Rightarrow> string" where
  "toLowerCase s = map lowerChar s"

fun startsWith :: "string \<Rightarrow> string \<Rightarrow> bool" where
  "startsWith s [] = True"
| "startsWith [] (p # ps) = False"
| "startsWith (c # cs) (p # ps) = (c = p \<and> startsWith cs ps)"

text \<open>\<open>s.includes(sub)\<close>: \<open>sub\<close> occurs in \<open>s\<close> at some position.\<close>

fun includes_str :: "string \<Rightarrow> string \<Rightarrow> bool" where
  "includes_str [] sub = (sub = [])"
| "includes_str (c # cs) sub = (startsWith (c # cs) sub \<or> includes_str cs sub)"

text \<open>The ASCII characters that \<open>\s\<close> and \<open>trim\<close> treat as white space.\<close>

definition isSpace :: "char \<Rightarrow> bool" where
  "isSpace c = (c \<in> set [CHR '' '', CHR 0x09, CHR 0x0A, CHR 0x0B, CHR 0x0C, CHR 0x0D])"

text \<open>
  \<open>lower.match(/(\d+)\s*days?\s*ago/)\<close>. \<open>spacesThen p r\<close> is \<open>\s*\<close> followed by
  the literal \<open>p\<close> at the head of \<open>r\<close>; \<open>daysAgoTail\<close> is \<open>\s*days?\s*ago\<close>.
  \<open>matchHere\<close> tries the pattern at the head of the string: \<open>\d+\<close> can only take the
  whole run of digits there, since the character after it must be white space or
  \<open>d\<close>. \<open>matchDaysAgo\<close> returns the capture group of the leftmost match.
\<close>

fun spacesThen :: "string \<Rightarrow> string \<Rightarrow> bool" where
  "spacesThen p [] = startsWith [] p"
| "spacesThen p (c # cs) = (startsWith (c # cs) p \<or> (isSpace c \<and> spacesThen p cs))"

fun daysAgoTail :: "string \<Rightarrow> bool" where
  "daysAgoTail [] = False"
| "daysAgoTail (c # cs) =
     ((startsWith (c # cs) ''day''
        \<and> ((startsWith (drop 3 (c # cs)) ''s'' \<and> spacesThen ''ago'' (drop 4 (c # cs)))
           \<or> spacesThen ''ago'' (drop 3 (c # cs))))
      \<or> (isSpace c \<and> daysAgoTail cs))"

definition matchHere :: "string \<Rightarrow> string option" where
  "matchHere s =
     (let ds = takeWhile isDigit s in
      if ds \<noteq> [] \<and> daysAgoTail (dropWhile isDigit s) then Some ds else None)"

fun matchDaysAgo :: "string \<Rightarrow> string option" where
  "matchDaysAgo [] = None"
| "matchDaysAgo (c # cs) =
     (case matchHere (c # cs) of Some ds \<Rightarrow> Some ds | None \<Rightarrow> matchDaysAgo cs)"

section \<open>Dates\<close>

text \<open>
  A \<open>Date\<close> is its time value: milliseconds, as an \<open>int\<close>, counted in the local time
  frame (the local zone is taken at a fixed offset from UTC; daylight-saving shifts are
  not modelled). The calendar functions follow the ECMAScript definitions of
  \<open>MakeDay\<close>, \<open>MakeDate\<close>, \<open>YearFromTime\<close>, \<open>MonthFromTime\<close> and
  \<open>DateFromTime\<close> in the proleptic Gregorian calendar; months count from \<open>0\<close>.
  The range limit of time values is not modelled: a date moved out of range is an
  invalid date in the runtime and a date far in the past here, and the filter below drops
  the transaction in both cases.
\<close>

definition msPerDay :: int where
  "msPerDay = 86400000"

text \<open>
  The days before 1 March of year \<open>y\<close>, counted from 1 March of year 0, and the day
  number of a calendar date (day 0 is 1 January 1970); \<open>m\<close> counts from \<open>1\<close> here.
\<close>

definition daysBeforeYear :: "int \<Rightarrow> int" where
  "daysBeforeYear y = 365 * y + y div 4 - y div 100 + y div 400"

definition daysFromCivil :: "int \<Rightarrow> int \<Rightarrow> int \<Rightarrow> int" where
  "daysFromCivil y m d =
     (let y' = (if m \<le> 2 then y - 1 else y);
          mp = (if 2 < m then m - 3 else m + 9)
      in daysBeforeYear y' + (153 * mp + 2) div 5 + d - 1 - 719468)"

text \<open>Year, month (from \<open>0\<close>) and day of the month of a day number.\<close>

definition civilFromDays :: "int \<Rightarrow> int \<times> int \<times> int" where
  "civilFromDays z =
     (let z0 = z + 719468;
          era = z0 div 146097;
          doe = z0 mod 146097;
          c = min 3 (doe div 36524);
          r1 = doe - c * 36524;
          q = r1 div 1461;
          r2 = r1 mod 1461;
          n = min 3 (r2 div 365);
          doy = r2 - n * 365;
          y' = 400 * era + 100 * c + 4 * q + n;
          mp = (5 * doy + 2) div 153;
          d = doy - (153 * mp + 2) div 5 + 1;
          m = (if mp < 10 then mp + 3 else mp - 9)
      in (if m \<le> 2 then y' + 1 else y', m - 1, d))"

definition getFullYear :: "int \<Rightarrow> int" where
  "getFullYear t = fst (civilFromDays (t div msPerDay))"

definition getMonth :: "int \<Rightarrow> int" where
  "getMonth t = fst (snd (civilFromDays (t div msPerDay)))"

definition getDate :: "int \<Rightarrow> int" where
  "getDate t = snd (snd (civilFromDays (t div msPerDay)))"

definition makeDay :: "int \<Rightarrow> int \<Rightarrow> int \<Rightarrow> int" where
  "makeDay y m0 dt = daysFromCivil (y + m0 div 12) (m0 mod 12 + 1) 1 + dt - 1"

definition setDate :: "int \<Rightarrow> int \<Rightarrow> int" where
  "setDate t dt = makeDay (getFullYear t) (getMonth t) dt * msPerDay + t mod msPerDay"

definition setMonth :: "int \<Rightarrow> int \<Rightarrow> int" where
  "setMonth t m0 = makeDay (getFullYear t) m0 (getDate t) * msPerDay + t mod msPerDay"

definition setFullYear :: "int \<Rightarrow> int \<Rightarrow> int" where
  "setFullYear t y = makeDay y (getMonth t) (getDate t) * msPerDay + t mod msPerDay"

text \<open>\<open>new Date(y, m, d)\<close>: local midnight; a year from 0 to 99 means 1900 + year.\<close>

definition newDateYMD :: "int \<Rightarrow> int \<Rightarrow> int \<Rightarrow> int" where
  "newDateYMD y m0 d =
     makeDay (if 0 \<le> y \<and> y \<le> 99 then 1900 + y else y) m0 d * msPerDay"

section \<open>Transaction history screen\<close>

text \<open>
  \<open>parseDate\<close>, lines 28 to 51. \<open>new Date(dateStr)\<close> is the runtime's date parser,
  whose accepted formats beyond ISO 8601 depend on the runtime: it is the parameter
  \<open>dp\<close>, with \<open>None\<close> for an invalid date. \<open>now\<close> is the clock reading
  \<open>new Date()\<close>; one query reads the clock once in this model.
\<close>

definition parseDate :: "(string \<Rightarrow> int option) \<Rightarrow> int \<Rightarrow> string \<Rightarrow> int" where
  "parseDate dp now dateStr =
     (let lower = toLowerCase dateStr;
          parsed = (case dp dateStr of None \<Rightarrow> now | Some t \<Rightarrow> t)
      in if includes_str lower ''today'' then now
         else if includes_str lower ''yesterday'' then setDate now (getDate now - 1)
         else if includes_str lower ''days ago'' then
           (case matchDaysAgo lower of
              Some ds \<Rightarrow> setDate now (getDate now - int (digitsVal 0 ds))
            | None \<Rightarrow> parsed)
         else parsed)"

datatype FilterType = tf_all | tf_sent | tf_received

datatype DateFilter = df_all | df_today | df_week | df_month | df_year

text \<open>The string literal that a value of \<open>FilterType\<close> is.\<close>

fun filterTypeStr :: "FilterType \<Rightarrow> string" where
  "filterTypeStr tf_all = ''all''"
| "filterTypeStr tf_sent = ''sent''"
| "filterTypeStr tf_received = ''received''"

definition startOfToday :: "int \<Rightarrow> int" where
  "startOfToday now = newDateYMD (getFullYear now) (getMonth now) (getDate now)"

definition weekAgo :: "int \<Rightarrow> int" where
  "weekAgo now = setDate now (getDate now - 7)"

definition monthAgo :: "int \<Rightarrow> int" where
  "monthAgo now = setMonth now (getMonth now - 1)"

definition yearAgo :: "int \<Rightarrow> int" where
  "yearAgo now = setFullYear now (getFullYear now - 1)"

text \<open>The callback of the date filter, lines 78 to 102.\<close>

definition inDateRange :: "(string \<Rightarrow> int option) \<Rightarrow> int \<Rightarrow> DateFilter \<Rightarrow> Transaction \<Rightarrow> bool" where
  "inDateRange dp now dateFilter tx =
     (let txDate = parseDate dp now (tx_date tx) in
      case dateFilter of
        df_today \<Rightarrow> startOfToday now \<le> txDate
      | df_week \<Rightarrow> weekAgo now \<le> txDate
      | df_month \<Rightarrow> monthAgo now \<le> txDate
      | df_year \<Rightarrow> yearAgo now \<le> txDate
      | df_all \<Rightarrow> True)"

text \<open>The callback of the search filter, lines 60 to 65.\<close>

definition matchesSearch :: "string \<Rightarrow> Transaction \<Rightarrow> bool" where
  "matchesSearch query tx =
     (includes_str (toLowerCase (tx_recipient tx)) query
      \<or> includes_str (toLowerCase (tx_amount tx)) query
      \<or> includes_str (toLowerCase (tx_currency tx)) query
      \<or> includes_str (toLowerCase (tx_id tx)) query)"

text \<open>\<open>searchQuery.trim()\<close> is the empty string when every character is white space.\<close>

definition isBlank :: "string \<Rightarrow> bool" where
  "isBlank s = list_all isSpace s"

text \<open>\<open>filteredTransactions\<close>, lines 54 to 106.\<close>

definition filteredTransactions ::
  "(string \<Rightarrow> int option) \<Rightarrow> int \<Rightarrow> Transaction list \<Rightarrow> string \<Rightarrow> FilterType \<Rightarrow> DateFilter
   \<Rightarrow> Transaction list" where
  "filteredTransactions dp now txs searchQuery typeFilter dateFilter =
     (let f1 = (if \<not> isBlank searchQuery
                then filter (matchesSearch (toLowerCase searchQuery)) txs else txs);
          f2 = (if typeFilter \<noteq> tf_all
                then filter (\<lambda>tx. tx_type tx = filterTypeStr typeFilter) f1 else f1);
          f3 = (if dateFilter \<noteq> df_all
                then filter (inDateRange dp now dateFilter) f2 else f2)
      in f3)"

text \<open>
  \<open>stats\<close>, lines 109 to 133. \<open>txValue\<close> is the summand \<open>amount * rate\<close> of both
  reducers, \<open>sumValues\<close> the \<open>reduce\<close> from \<open>0\<close>.
\<close>

definition txValue :: "(string \<Rightarrow> jsnum) \<Rightarrow> (string \<rightharpoonup> rat) \<Rightarrow> Transaction \<Rightarrow> jsnum" where
  "txValue pf ps tx =
     (let amt = pf (removeCommas (tx_amount tx));
          rate = getRate ps (tx_currency tx)
      in num_mul amt (Fin rate))"

definition sumValues :: "(string \<Rightarrow> jsnum) \<Rightarrow> (string \<rightharpoonup> rat) \<Rightarrow> Transaction list \<Rightarrow> jsnum" where
  "sumValues pf ps txs = foldl (\<lambda>acc tx. num_add acc (txValue pf ps tx)) (Fin 0) txs"

record Stats =
  totalTransactions :: nat
  sentCount :: nat
  receivedCount :: nat
  totalSent :: jsnum
  totalReceived :: jsnum
  netFlow :: jsnum

definition stats :: "(string \<Rightarrow> jsnum) \<Rightarrow> (string \<rightharpoonup> rat) \<Rightarrow> Transaction list \<Rightarrow> Stats" where
  "stats pf ps ftxs =
     (let sent = filter (\<lambda>tx. tx_type tx = ''sent'') ftxs;
          received = filter (\<lambda>tx. tx_type tx = ''received'') ftxs;
          totalSent = sumValues pf ps sent;
          totalReceived = sumValues pf ps received
      in \<lparr>totalTransactions = length ftxs,
          sentCount = length sent,
          receivedCount = length received,
          totalSent = totalSent,
          totalReceived = totalReceived,
          netFlow = num_sub totalReceived totalSent\<rparr>)"

text \<open>
  \<open>exportToCSV\<close>, lines 136 to 164: \<open>csvContent\<close> is the text handed to the
  \<open>Blob\<close>; \<open>join\<close> is \<open>Array.prototype.join\<close>.
\<close>

fun join :: "string \<Rightarrow> string list \<Rightarrow> string" where
  "join sep [] = []"
| "join sep [x] = x"
| "join sep (x # y # ys) = x @ sep @ join sep (y # ys)"

definition headers :: "string list" where
  "headers = [''ID'', ''Type'', ''Amount'', ''Currency'', ''Recipient'', ''Date'']"

definition csvRow :: "Transaction \<Rightarrow> string list" where
  "csvRow tx = [tx_id tx, tx_type tx, tx_amount tx, tx_currency tx, tx_recipient tx, tx_date tx]"

definition quoteCell :: "string \<Rightarrow> string" where
  "quoteCell cell = [CHR 0x22] @ cell @ [CHR 0x22]"

definition csvLines :: "Transaction list \<Rightarrow> string list" where
  "csvLines ftxs = join '','' headers # map (\<lambda>row. join '','' (map quoteCell row)) (map csvRow ftxs)"

definition csvContent :: "Transaction list \<Rightarrow> string" where
  "csvContent ftxs = join [CHR 0x0A] (csvLines ftxs)"

definition exportToCSV :: "Transaction list \<Rightarrow> string \<times> effect list" where
  "exportToCSV ftxs = (csvContent ftxs, [ShowToast ''Transactions exported to CSV'' success])"

section \<open>Example data\<close>

text \<open>
  The runtime's date parser on calendar dates in the date-only ISO form
  \<open>YYYY-MM-DD\<close>, which every runtime accepts; any other string is no date here. The
  examples take the local zone at offset \<open>0\<close>.
\<close>

definition isoDateOnly :: "string \<Rightarrow> int option" where
  "isoDateOnly s =
     (if length s = 10 \<and> s ! 4 = CHR ''-'' \<and> s ! 7 = CHR ''-''
         \<and> list_all isDigit (take 4 s @ take 2 (drop 5 s) @ drop 8 s)
      then (let y = int (digitsVal 0 (take 4 s));
                m = int (digitsVal 0 (take 2 (drop 5 s)));
                d = int (digitsVal 0 (drop 8 s))
            in if 1 \<le> m \<and> m \<le> 12 \<and> 1 \<le> d \<and> d \<le> 31
               then Some (daysFromCivil y m d * msPerDay) else None)
      else None)"

text \<open>The swap screen with SUI and USDC selected and the amount \<open>100\<close> typed in.\<close>

definition swapExample :: SwapScreen where
  "swapExample =
     \<lparr>fromAsset = \<lparr>symbol = ''SUI'', balance = ''1,250.00'', fiatValue = ''1,875.00'',
                   color = ''bg-primary'', icon = ''payments''\<rparr>,
      toAsset = \<lparr>symbol = ''USDC'', balance = ''0'', fiatValue = ''0'',
                 color = ''bg-blue-500'', icon = ''toll''\<rparr>,
      amount = ''100'',
      estimatedOutput = ''0.00'',
      useMesh = False\<rparr>"

definition pricesExample :: "string \<rightharpoonup> rat" where
  "pricesExample = [''SUI'' \<mapsto> 3 / 2, ''USDC'' \<mapsto> 1]"

definition ctxExample :: WalletCtx where
  "ctxExample =
     \<lparr>wallets = [fromAsset swapExample, toAsset swapExample],
      prices = pricesExample,
      transactions = [],
      escrows = [],
      contacts = [\<lparr>name = ''Jane Cooper'', address = ''0x7a3f''\<rparr>]\<rparr>"

definition escrowFormExample :: EscrowScreen where
  "escrowFormExample =
     \<lparr>activeTab = ''create'', e_amount = ''500.00'', e_recipient = ''Jane Cooper'',
      e_currency = ''USD'', showHelp = False\<rparr>"

definition txT1 :: Transaction where
  "txT1 = \<lparr>tx_id = ''T1'', tx_type = ''sent'', tx_amount = ''100'', tx_currency = ''USD'',
           tx_recipient = ''Jane'', tx_date = ''today''\<rparr>"

text \<open>
  A history of six transactions, read at the clock value \<open>1700000000000\<close>
  (14 November 2023, 22:13:20).
\<close>

definition historyExample :: "Transaction list" where
  "historyExample =
     [txT1\<lparr>tx_id := ''A'', tx_date := ''Today, 10:45 AM''\<rparr>,
      txT1\<lparr>tx_id := ''B'', tx_date := ''Yesterday''\<rparr>,
      txT1\<lparr>tx_id := ''C'', tx_date := ''3 days ago''\<rparr>,
      txT1\<lparr>tx_id := ''D'', tx_date := ''2023-10-20''\<rparr>,
      txT1\<lparr>tx_id := ''E'', tx_date := ''Oct 24''\<rparr>,
      txT1\<lparr>tx_id := ''F'', tx_date := ''2020-01-01''\<rparr>]"

section \<open>Calendar arithmetic\<close>

text \<open>
  The day number of a date splits into eras of 400 years, centuries, cycles of four
  years and years; \<open>daysFromCivil\<close> puts the parts together again.
\<close>

lemma civil_decompose:
  fixes z :: int
  defines "z0 \<equiv> z + 719468"
  defines "doe \<equiv> z0 mod 146097"
  defines "c \<equiv> min 3 (doe div 36524)"
  defines "r1 \<equiv> doe - c * 36524"
  defines "q \<equiv> r1 div 1461"
  defines "r2 \<equiv> r1 mod 1461"
  defines "n \<equiv> min 3 (r2 div 365)"
  defines "doy \<equiv> r2 - n * 365"
  defines "y' \<equiv> 400 * (z0 div 146097) + 100 * c + 4 * q + n"
  shows "daysBeforeYear y' + doy = z0"
    and "0 \<le> doy" and "doy \<le> 365"
proof -
  have doe: "0 \<le> doe" "doe < 146097" by (simp_all add: doe_def)
  have z0: "z0 = 146097 * (z0 div 146097) + doe" by (simp add: doe_def)
  have c: "0 \<le> c" "c \<le> 3" using doe by (simp_all add: c_def)
  have r1: "0 \<le> r1" "r1 \<le> 36524" using doe unfolding r1_def c_def by (simp_all add: min_def; linarith)+
  have q: "0 \<le> q" "q \<le> 24" using r1 unfolding q_def by (simp_all; linarith)+
  have r2: "0 \<le> r2" "r2 < 1461" "r1 = 1461 * q + r2" by (simp_all add: r2_def q_def)
  have n: "0 \<le> n" "n \<le> 3" using r2 by (simp_all add: n_def)
  have doy: "0 \<le> doy" "doy \<le> 365" using r2 unfolding doy_def n_def by (simp_all add: min_def; linarith)+
  have d4: "y' div 4 = 100 * (z0 div 146097) + 25 * c + q" using n unfolding y'_def by linarith
  have d100: "y' div 100 = 4 * (z0 div 146097) + c" using n q c unfolding y'_def by linarith
  have d400: "y' div 400 = z0 div 146097" using n q c unfolding y'_def by linarith
  obtain e where e: "e = z0 div 146097" by simp
  have "365 * (400 * e + 100 * c + 4 * q + n) + (100 * e + 25 * c + q) - (4 * e + c) + e
        + (r2 - n * 365) = 146097 * e + (c * 36524 + (1461 * q + r2))"
    by (simp add: algebra_simps)
  also have "\<dots> = z0" using z0 r2(3) by (simp add: r1_def e)
  finally show "daysBeforeYear y' + doy = z0"
    unfolding daysBeforeYear_def d4 d100 d400 by (simp add: doy_def y'_def e)
  show "0 \<le> doy" "doy \<le> 365" using doy by simp_all
qed


lemma div_pred:
  fixes y k :: int
  assumes "0 < k"
  shows "(y - 1) div k = (if y mod k = 0 then y div k - 1 else y div k)"
proof (cases "y mod k = 0")
  case True
  have "y - 1 = k * (y div k - 1) + (k - 1)"
    using True by (simp add: algebra_simps flip: mod_eq_0_iff_dvd) 
  then have "(y - 1) div k = y div k - 1"
    by (rule int_div_pos_eq) (use assms in simp_all)
  then show ?thesis using True by simp
next
  case False
  have "0 \<le> y mod k" "y mod k < k" using assms by simp_all
  then have r: "0 \<le> y mod k - 1" "y mod k - 1 < k" using False by linarith+
  have "y - 1 = k * (y div k) + (y mod k - 1)" by simp
  then have "(y - 1) div k = y div k"
    using r by (rule int_div_pos_eq)
  then show ?thesis using False by simp
qed

lemma mod_100_4: "(y::int) mod 100 = 0 \<Longrightarrow> y mod 4 = 0"
  by presburger

lemma mod_400_100: "(y::int) mod 400 = 0 \<Longrightarrow> y mod 100 = 0"
  by presburger

lemma year_len:
  "365 \<le> daysBeforeYear y - daysBeforeYear (y - 1) \<and> daysBeforeYear y - daysBeforeYear (y - 1) \<le> 366"
  using mod_100_4[of y] mod_400_100[of y] by (auto simp add: daysBeforeYear_def div_pred)

lemma civil_shape:
  obtains y' mp doy where
    "civilFromDays z = (if mp < 10 then y' else y' + 1,
                        if mp < 10 then mp + 2 else mp - 10,
                        doy - (153 * mp + 2) div 5 + 1)"
    and "0 \<le> mp" and "mp \<le> 11"
    and "daysBeforeYear y' + doy = z + 719468"
    and "0 \<le> doy" and "doy \<le> 365"
proof -
  define z0 where "z0 = z + 719468"
  define doe where "doe = z0 mod 146097"
  define c where "c = min 3 (doe div 36524)"
  define r1 where "r1 = doe - c * 36524"
  define q where "q = r1 div 1461"
  define r2 where "r2 = r1 mod 1461"
  define n where "n = min 3 (r2 div 365)"
  define doy where "doy = r2 - n * 365"
  define y' where "y' = 400 * (z0 div 146097) + 100 * c + 4 * q + n"
  define mp where "mp = (5 * doy + 2) div 153"
  note defs = z0_def doe_def c_def r1_def q_def r2_def n_def doy_def y'_def mp_def
  have main: "daysBeforeYear y' + doy = z0"
    and doy: "0 \<le> doy" "doy \<le> 365"
    unfolding defs by (rule civil_decompose)+
  have mp: "0 \<le> mp" "mp \<le> 11" using doy unfolding mp_def by linarith+
  have cv: "civilFromDays z =
     (if (if mp < 10 then mp + 3 else mp - 9) \<le> 2 then y' + 1 else y',
      (if mp < 10 then mp + 3 else mp - 9) - 1,
      doy - (153 * mp + 2) div 5 + 1)"
    unfolding civilFromDays_def Let_def defs by (rule refl)
  have "civilFromDays z = (if mp < 10 then y' else y' + 1,
                        if mp < 10 then mp + 2 else mp - 10,
                        doy - (153 * mp + 2) div 5 + 1)"
    unfolding cv using mp by simp
  then show thesis using mp main doy that unfolding z0_def by blast
qed

lemma month_cases:
  fixes mp :: int
  assumes "0 \<le> mp" "mp \<le> 11"
  shows "mp = 0 \<or> mp = 1 \<or> mp = 2 \<or> mp = 3 \<or> mp = 4 \<or> mp = 5 \<or> mp = 6
         \<or> mp = 7 \<or> mp = 8 \<or> mp = 9 \<or> mp = 10 \<or> mp = 11"
  using assms by arith

lemma getMonth_range: "0 \<le> getMonth t \<and> getMonth t \<le> 11"
proof -
  obtain y' mp doy where cv: "civilFromDays (t div msPerDay) = (if mp < 10 then y' else y' + 1,
                        if mp < 10 then mp + 2 else mp - 10,
                        doy - (153 * mp + 2) div 5 + 1)"
    and mp: "0 \<le> mp" "mp \<le> 11"
    by (rule civil_shape)
  show ?thesis using mp by (simp add: getMonth_def cv)
qed

lemma makeDay_civil:
  "makeDay (getFullYear t) (getMonth t) dt = t div msPerDay + dt - getDate t"
proof -
  obtain y' mp doy where cv: "civilFromDays (t div msPerDay) = (if mp < 10 then y' else y' + 1,
                        if mp < 10 then mp + 2 else mp - 10,
                        doy - (153 * mp + 2) div 5 + 1)"
    and mp: "0 \<le> mp" "mp \<le> 11"
    and main: "daysBeforeYear y' + doy = t div msPerDay + 719468"
    by (rule civil_shape)
  have "mp = 0 \<or> mp = 1 \<or> mp = 2 \<or> mp = 3 \<or> mp = 4 \<or> mp = 5 \<or> mp = 6
         \<or> mp = 7 \<or> mp = 8 \<or> mp = 9 \<or> mp = 10 \<or> mp = 11"
    using mp by (rule month_cases)
  then show ?thesis using main
    by (elim disjE) (simp_all add: makeDay_def getFullYear_def getMonth_def getDate_def cv daysFromCivil_def)
qed

lemma setDate_rel: "setDate t (getDate t - n) = t - n * msPerDay"
proof -
  have "t = (t div msPerDay) * msPerDay + t mod msPerDay" by simp
  then show ?thesis
    unfolding setDate_def makeDay_civil by (simp add: algebra_simps)
qed

lemma prev_month_days:
  "28 \<le> t div msPerDay - makeDay (getFullYear t) (getMonth t - 1) (getDate t)
   \<and> t div msPerDay - makeDay (getFullYear t) (getMonth t - 1) (getDate t) \<le> 31"
proof -
  obtain y' mp doy where cv: "civilFromDays (t div msPerDay) = (if mp < 10 then y' else y' + 1,
                        if mp < 10 then mp + 2 else mp - 10,
                        doy - (153 * mp + 2) div 5 + 1)"
    and mp: "0 \<le> mp" "mp \<le> 11"
    and main: "daysBeforeYear y' + doy = t div msPerDay + 719468"
    by (rule civil_shape)
  have "mp = 0 \<or> mp = 1 \<or> mp = 2 \<or> mp = 3 \<or> mp = 4 \<or> mp = 5 \<or> mp = 6
         \<or> mp = 7 \<or> mp = 8 \<or> mp = 9 \<or> mp = 10 \<or> mp = 11"
    using mp by (rule month_cases)
  then show ?thesis using main year_len[of y']
    by (elim disjE) (simp_all add: makeDay_def getFullYear_def getMonth_def getDate_def cv daysFromCivil_def)
qed

lemma prev_year_days:
  "365 \<le> t div msPerDay - makeDay (getFullYear t - 1) (getMonth t) (getDate t)
   \<and> t div msPerDay - makeDay (getFullYear t - 1) (getMonth t) (getDate t) \<le> 366"
proof -
  obtain y' mp doy where cv: "civilFromDays (t div msPerDay) = (if mp < 10 then y' else y' + 1,
                        if mp < 10 then mp + 2 else mp - 10,
                        doy - (153 * mp + 2) div 5 + 1)"
    and mp: "0 \<le> mp" "mp \<le> 11"
    and main: "daysBeforeYear y' + doy = t div msPerDay + 719468"
    by (rule civil_shape)
  have "mp = 0 \<or> mp = 1 \<or> mp = 2 \<or> mp = 3 \<or> mp = 4 \<or> mp = 5 \<or> mp = 6
         \<or> mp = 7 \<or> mp = 8 \<or> mp = 9 \<or> mp = 10 \<or> mp = 11"
    using mp by (rule month_cases)
  then show ?thesis using main year_len[of y']
    by (elim disjE) (simp_all add: makeDay_def getFullYear_def getMonth_def getDate_def cv daysFromCivil_def)
qed

lemma ms_split: "t - (d * msPerDay + t mod msPerDay) = (t div msPerDay - d) * msPerDay"
proof -
  have "t = (t div msPerDay) * msPerDay + t mod msPerDay" by simp
  then show ?thesis by (simp add: algebra_simps)
qed

lemma msPerDay_pos: "0 < msPerDay"
  by (simp add: msPerDay_def)

lemma monthAgo_window:
  "28 * msPerDay \<le> now - monthAgo now \<and> now - monthAgo now \<le> 31 * msPerDay"
  unfolding monthAgo_def setMonth_def ms_split
  using prev_month_days[of now] msPerDay_pos by simp

lemma yearAgo_window:
  "365 * msPerDay \<le> now - yearAgo now \<and> now - yearAgo now \<le> 366 * msPerDay"
  unfolding yearAgo_def setFullYear_def ms_split
  using prev_year_days[of now] msPerDay_pos by simp

lemma getFullYear_epoch: "0 \<le> t \<Longrightarrow> 1900 \<le> getFullYear t"
proof -
  assume t: "0 \<le> t"
  obtain y' mp doy where cv: "civilFromDays (t div msPerDay) = (if mp < 10 then y' else y' + 1,
                        if mp < 10 then mp + 2 else mp - 10,
                        doy - (153 * mp + 2) div 5 + 1)"
    and main: "daysBeforeYear y' + doy = t div msPerDay + 719468"
    and doy: "0 \<le> doy" "doy \<le> 365"
    by (rule civil_shape)
  have d: "0 \<le> t div msPerDay" using t msPerDay_pos by (simp add: pos_imp_zdiv_nonneg_iff)
  define q4 where "q4 = y' div 4"
  define r4 where "r4 = y' mod 4"
  define q100 where "q100 = y' div 100"
  define r100 where "r100 = y' mod 100"
  define q400 where "q400 = y' div 400"
  define r400 where "r400 = y' mod 400"
  have b: "y' = 4 * q4 + r4" "0 \<le> r4" "y' = 100 * q100 + r100" "r100 < 100"
    "y' = 400 * q400 + r400" "0 \<le> r400"
    by (simp_all add: q4_def r4_def q100_def r100_def q400_def r400_def)
  have "365 * y' + q4 - q100 + q400 + doy = t div msPerDay + 719468"
    using main by (simp add: daysBeforeYear_def q4_def q100_def q400_def)
  then have "1900 \<le> y'" using b doy d by linarith
  then show ?thesis by (simp add: getFullYear_def cv)
qed

lemma startOfToday_midnight: "0 \<le> now \<Longrightarrow> startOfToday now = now - now mod msPerDay"
proof -
  assume "0 \<le> now"
  then have "1900 \<le> getFullYear now" by (rule getFullYear_epoch)
  then have "startOfToday now = makeDay (getFullYear now) (getMonth now) (getDate now) * msPerDay"
    by (simp add: startOfToday_def newDateYMD_def)
  also have "\<dots> = (now div msPerDay) * msPerDay" by (simp add: makeDay_civil)
  also have "\<dots> = now - now mod msPerDay" by (simp add: algebra_simps minus_mod_eq_mult_div)
  finally show ?thesis .
qed

section \<open>Formatting and parsing\<close>






lemma quoteOutput_value:
  "amount st \<noteq> [] \<Longrightarrow> pf (amount st) = Fin a \<Longrightarrow> 0 < a \<Longrightarrow>
   quoteOutput pf ps st
     = Some (num_div (num_mul (Fin a) (Fin (getRate ps (symbol (fromAsset st)))))
               (Fin (getRate ps (symbol (toAsset st)))))"
  by (simp add: quoteOutput_def num_gt_def num_lt_def rank_def valueOf_def)

lemma getRate_nonzero: "getRate ps k \<noteq> 0"
  by (simp add: getRate_def split: option.split)

lemma weekAgo_eq: "weekAgo now = now - 7 * msPerDay"
  unfolding weekAgo_def by (rule setDate_rel)

lemma parseDate_eq:
  "parseDate dp now s =
     (if includes_str (toLowerCase s) ''today'' then now
      else if includes_str (toLowerCase s) ''yesterday'' then now - msPerDay
      else if includes_str (toLowerCase s) ''days ago'' \<and> matchDaysAgo (toLowerCase s) \<noteq> None
        then now - int (digitsVal 0 (the (matchDaysAgo (toLowerCase s)))) * msPerDay
      else (case dp s of None \<Rightarrow> now | Some t \<Rightarrow> t))"
  using setDate_rel[of now 1]
  by (auto simp add: parseDate_def Let_def setDate_rel split: option.split)

lemma filtered_date:
  "dateFilter \<noteq> df_all \<Longrightarrow>
   filteredTransactions dp now txs q tf dateFilter
     = filter (inDateRange dp now dateFilter) (filteredTransactions dp now txs q tf df_all)"
  by (simp add: filteredTransactions_def Let_def)





text \<open>Multiplying a double by one gives the double: the exact product needs no rounding.\<close>

lemma num_mul_one: "isDouble x \<Longrightarrow> num_mul x (Fin 1) = x"
  by (cases x)
     (auto simp add: num_mul_def isDouble_def isInfinite_def isNegative_def magnitude_def
        valueOf_def roundToDouble_def signedZero_def)

text \<open>Equations that evaluate the arithmetic, the formatter and the example parser on numerals.\<close>

section \<open>Accuracy of double arithmetic\<close>

lemma pow2_powi: "pow2 e = 2 powi e"
  by (simp add: pow2_def power_int_def field_simps)

lemma pow2_pos: "0 < pow2 e"
  by (simp add: pow2_powi)

lemma pow2_add: "pow2 (d + e) = pow2 d * pow2 e"
  by (simp add: pow2_powi power_int_add)

lemma pow2_mono: "d \<le> e \<Longrightarrow> pow2 d \<le> pow2 e"
  by (simp add: pow2_powi power_int_increasing)

lemma pow2_nat: "0 \<le> e \<Longrightarrow> pow2 e = of_nat (2 ^ nat e)"
  by (simp add: pow2_def)

lemma pow2_neg: "0 \<le> e \<Longrightarrow> pow2 (- e) = 1 / of_nat (2 ^ nat e)"
  by (cases "e = 0") (simp_all add: pow2_def)

lemma bitLength_nat:
  "0 < n \<Longrightarrow> 1 \<le> bitLength n \<and> 2 ^ nat (bitLength n - 1) \<le> n \<and> n < 2 ^ nat (bitLength n)"
proof (induction n rule: bitLength.induct)
  case (1 n)
  define h where "h = n div 2"
  have bl: "bitLength n = 1 + bitLength h"
    using 1(2) unfolding h_def by (subst bitLength.simps) simp
  show ?case
  proof (cases "h = 0")
    case True
    then have "n = 1" using 1(2) unfolding h_def by (simp add: div_eq_0_iff)
    then show ?thesis by (simp add: bitLength.simps)
  next
    case False
    then have ih: "1 \<le> bitLength h" "2 ^ nat (bitLength h - 1) \<le> h" "h < 2 ^ nat (bitLength h)"
      using 1(1) 1(2) unfolding h_def by auto
    have k: "nat (bitLength h) = Suc (nat (bitLength h - 1))" using ih(1) by simp
    have n1: "2 * h \<le> n" "n \<le> 2 * h + 1" unfolding h_def by simp_all
    have a: "2 ^ nat (bitLength n - 1) \<le> n"
      using ih(2) n1(1) unfolding bl by (simp add: k)
    have "Suc h \<le> 2 ^ nat (bitLength h)" using ih(3) by simp
    then have "2 * h + 2 \<le> 2 * 2 ^ nat (bitLength h)" by simp
    then have b: "n < 2 ^ nat (bitLength n)"
      using n1(2) ih(1) unfolding bl by (simp add: nat_add_distrib)
    show ?thesis using a b ih(1) unfolding bl by simp
  qed
qed

lemma floorLog2_ge1:
  assumes "1 \<le> m"
  shows "pow2 (floorLog2 m) \<le> m \<and> m < pow2 (floorLog2 m + 1)"
proof -
  define n where "n = nat \<lfloor>m\<rfloor>"
  have f: "1 \<le> \<lfloor>m\<rfloor>" using assms by simp
  then have n0: "0 < n" unfolding n_def by simp
  have nm: "(of_nat n :: rat) = of_int \<lfloor>m\<rfloor>" using f unfolding n_def by simp
  note b = bitLength_nat[OF n0]
  have fl: "floorLog2 m = bitLength n - 1" using assms by (simp add: floorLog2_def n_def)
  have "pow2 (bitLength n - 1) = of_nat (2 ^ nat (bitLength n - 1))"
    using b by (intro pow2_nat) simp
  also have "\<dots> \<le> of_nat n" using b by (simp only: of_nat_le_iff)
  also have "\<dots> \<le> m" unfolding nm by simp
  finally have lo: "pow2 (floorLog2 m) \<le> m" unfolding fl .
  have "m < of_int \<lfloor>m\<rfloor> + 1" by linarith
  also have "\<dots> = of_nat (Suc n)" using nm by simp
  also have "\<dots> \<le> of_nat (2 ^ nat (bitLength n))"
    using b by (simp only: of_nat_le_iff) simp
  also have "\<dots> = pow2 (bitLength n)" using b by (intro pow2_nat[symmetric]) simp
  finally have hi: "m < pow2 (floorLog2 m + 1)" unfolding fl by simp
  show ?thesis using lo hi by simp
qed

lemma floorLog2_lt1:
  assumes "0 < m" "m < 1"
  shows "pow2 (floorLog2 m) \<le> m \<and> m < pow2 (floorLog2 m + 1)"
proof -
  define t where "t = 1 / m"
  have t1: "1 < t" using assms unfolding t_def by simp
  define n where "n = nat (\<lceil>t\<rceil> - 1)"
  have c: "2 \<le> \<lceil>t\<rceil>" using t1 by (simp add: le_ceiling_iff) 
  then have n0: "0 < n" unfolding n_def by simp
  have nc: "(of_nat n :: rat) = of_int \<lceil>t\<rceil> - 1" using c unfolding n_def by simp
  note b = bitLength_nat[OF n0]
  have fl: "floorLog2 m = - bitLength n" using assms by (simp add: floorLog2_def n_def t_def)
  have "t \<le> of_int \<lceil>t\<rceil>" by simp
  also have "\<dots> = of_nat (Suc n)" using nc by simp
  also have "\<dots> \<le> of_nat (2 ^ nat (bitLength n))"
    using b by (simp only: of_nat_le_iff) simp
  finally have tu: "t \<le> of_nat (2 ^ nat (bitLength n))" .
  have "(of_nat (2 ^ nat (bitLength n - 1)) :: rat) \<le> of_nat n"
    using b by (simp only: of_nat_le_iff)
  also have "\<dots> < t" unfolding nc using ceiling_correct[of t] by linarith
  finally have tl: "of_nat (2 ^ nat (bitLength n - 1)) < t" .
  have p0: "(0::rat) < of_nat (2 ^ nat (bitLength n))" "(0::rat) < of_nat (2 ^ nat (bitLength n - 1))"
    by simp_all
  have m: "m = 1 / t" unfolding t_def by simp
  have lo: "pow2 (- bitLength n) \<le> m"
    unfolding m using tu t1 p0 b by (simp add: pow2_neg frac_le)
  have "- bitLength n + 1 = - (bitLength n - 1)" by simp
  then have "pow2 (- bitLength n + 1) = 1 / of_nat (2 ^ nat (bitLength n - 1))"
    using b pow2_neg[of "bitLength n - 1"] by simp
  then have hi: "m < pow2 (- bitLength n + 1)"
    unfolding m using tl t1 p0 by (simp add: frac_less2)
  show ?thesis using lo hi unfolding fl by simp
qed

lemma floorLog2_bounds:
  "0 < m \<Longrightarrow> pow2 (floorLog2 m) \<le> m \<and> m < pow2 (floorLog2 m + 1)"
  using floorLog2_ge1[of m] floorLog2_lt1[of m] by (cases "1 \<le> m") auto

lemma pow2_less_imp: "pow2 d < pow2 e \<Longrightarrow> d < e"
  using pow2_mono[of e d] by (cases "d < e") auto

lemma roundToDouble_normal:
  assumes m: "0 < m" and nr: "pow2 (- 1022) \<le> m"
  shows "roundToDouble neg m = Infinity neg
     \<or> (\<exists>x. roundToDouble neg m = Fin x \<and> \<bar>x - (if neg then - m else m)\<bar> \<le> m / 2 ^ 53)"
proof -
  define e where "e = max (floorLog2 m) (- 1022) - 52"
  define s where "s = m / pow2 e"
  define n where "n = \<lfloor>s\<rfloor>"
  define n' where "n' = (if 1 / 2 < s - of_int n \<or> (s - of_int n = 1 / 2 \<and> odd n) then n + 1 else n)"
  define y where "y = of_int n' * pow2 e"
  have rd: "roundToDouble neg m
      = (if pow2 1024 \<le> y then Infinity neg
         else if y = 0 then signedZero neg else Fin (if neg then - y else y))"
    using m unfolding roundToDouble_def Let_def y_def n'_def n_def s_def e_def by simp
  have b: "pow2 (floorLog2 m) \<le> m" "m < pow2 (floorLog2 m + 1)"
    using floorLog2_bounds[OF m] by simp_all
  have "pow2 (- 1022) < pow2 (floorLog2 m + 1)" using nr b(2) by simp
  then have "- 1022 < floorLog2 m + 1" by (rule pow2_less_imp)
  then have e: "e = floorLog2 m - 52" unfolding e_def by simp
  have pe: "0 < pow2 e" by (rule pow2_pos)
  have ms: "m = s * pow2 e" using pe unfolding s_def by simp
  have fr: "0 \<le> s - of_int n" "s - of_int n < 1" unfolding n_def by linarith+
  have d: "\<bar>of_int n' - s\<bar> \<le> 1 / 2"
    using fr unfolding n'_def by (auto simp add: abs_le_iff)
  have "\<bar>y - m\<bar> = \<bar>of_int n' - s\<bar> * pow2 e"
    using pe unfolding y_def ms by (simp add: abs_mult flip: left_diff_distrib)
  also have "\<dots> \<le> (1 / 2) * pow2 e" using d pe by (intro mult_right_mono) simp_all
  finally have ym: "\<bar>y - m\<bar> \<le> pow2 e / 2" by simp
  have "pow2 (floorLog2 m) = pow2 (e + 52)" unfolding e by simp
  also have "\<dots> = pow2 e * 2 ^ 52" unfolding pow2_add by (simp add: pow2_def)
  finally have "pow2 e * 2 ^ 52 \<le> m" using b(1) by simp
  then have "pow2 e / 2 \<le> m / 2 ^ 53" by (simp add: field_simps)
  then have ymb: "\<bar>y - m\<bar> \<le> m / 2 ^ 53" using ym by linarith
  have "m / 2 ^ 53 < m" using m by (simp add: field_simps)
  then have y0: "y \<noteq> 0" using ymb by auto
  have "\<bar>(if neg then - y else y) - (if neg then - m else m)\<bar> \<le> m / 2 ^ 53"
    using ymb by (cases neg) (simp_all add: abs_minus_commute[of "- y"] flip: abs_minus_cancel[of "y - m"])
  then show ?thesis unfolding rd using y0 by auto
qed


lemma signed_abs:
  fixes a r :: rat
  assumes "a * r \<noteq> 0"
  shows "(if (a < 0) \<noteq> (r < 0) then - (\<bar>a\<bar> * \<bar>r\<bar>) else \<bar>a\<bar> * \<bar>r\<bar>) = a * r"
    and "(if (a < 0) \<noteq> (r < 0) then - (\<bar>a\<bar> / \<bar>r\<bar>) else \<bar>a\<bar> / \<bar>r\<bar>) = a / r"
  using assms by (auto simp add: abs_if)

lemma num_mul_normal:
  assumes "pow2 (- 1022) \<le> \<bar>a * r\<bar>"
  shows "(\<exists>s. num_mul (Fin a) (Fin r) = Infinity s)
     \<or> (\<exists>u. num_mul (Fin a) (Fin r) = Fin u \<and> \<bar>u - a * r\<bar> \<le> \<bar>a * r\<bar> / 2 ^ 53)"
proof -
  have p: "0 < \<bar>a * r\<bar>" using assms pow2_pos[of "- 1022"] by linarith
  then have nz: "a * r \<noteq> 0" by simp
  have rd: "num_mul (Fin a) (Fin r) = roundToDouble ((a < 0) \<noteq> (r < 0)) (\<bar>a\<bar> * \<bar>r\<bar>)"
    by (simp add: num_mul_def isInfinite_def isNegative_def magnitude_def valueOf_def)
  have m: "\<bar>a\<bar> * \<bar>r\<bar> = \<bar>a * r\<bar>" by (simp add: abs_mult)
  have "0 < \<bar>a\<bar> * \<bar>r\<bar>" "pow2 (- 1022) \<le> \<bar>a\<bar> * \<bar>r\<bar>"
    using p assms unfolding m by simp_all
  from roundToDouble_normal[OF this, of "(a < 0) \<noteq> (r < 0)"] show ?thesis
    unfolding rd signed_abs(1)[OF nz] unfolding m by blast
qed

lemma num_mul_error:
  assumes "num_mul (Fin a) (Fin r) = Fin u" and "pow2 (- 1022) \<le> \<bar>a * r\<bar>"
  shows "\<bar>u - a * r\<bar> \<le> \<bar>a * r\<bar> / 2 ^ 53"
  using num_mul_normal[OF assms(2)] assms(1) by auto




section \<open>Evaluation of examples\<close>

lemma floor_rat_numeral: "\<lfloor>(numeral a :: rat) / numeral b\<rfloor> = numeral a div numeral b"
  using floor_divide_of_int_eq[of "numeral a" "numeral b", where ?'a = rat] by simp

lemma ceiling_rat_int: "\<lceil>(of_int k :: rat) / of_int l\<rceil> = - ((- k) div l)"
proof -
  have "- ((of_int k :: rat) / of_int l) = of_int (- k) / of_int l" by simp
  then show ?thesis unfolding ceiling_def by (simp only: floor_divide_of_int_eq)
qed

lemmas ceiling_rat_numeral =
  ceiling_rat_int[of "numeral a" "numeral b", unfolded of_int_numeral] for a b

lemma replicate_numeral: "replicate (numeral k) x = x # replicate (pred_numeral k) x"
  by (simp add: numeral_eq_Suc)

lemmas dbl_eval = roundToDouble_def floorLog2_def pow2_def bitLength.simps signedZero_def
  floor_rat_numeral ceiling_rat_numeral Let_def

lemmas num_eval = num_mul_def num_div_def num_add_def num_sub_def num_neg_def num_lt_def
  num_gt_def num_le_def rank_def isNegative_def isInfinite_def valueOf_def magnitude_def

lemmas fmt_eval = toLocaleString_def formatFinite_def fractionDigits_def roundMicros_def
  floor_rat_numeral natToDigits.simps digitChar_def padStart_def replicate_numeral
  dropTrailingZeros.simps groupDigits.simps

lemmas parse_eval = parseFloat_dec_def parseUnsigned_dec_def isDigit_def digitVal_def
  removeCommas_def

section \<open>Swap quote\<close>




section \<open>Swap execution\<close>

text \<open>
  Claim C2: \<open>handleSwap\<close> refuses an empty amount and an amount that is not greater
  than 0 (a finite number that is negative or zero, the negative zero or the negative
  infinity) with the invalid-amount error, and a positive amount that exceeds the balance of
  the source asset with the insufficient-funds error. In both cases it returns before
  \<open>swapAssets\<close> is called: the wallet context, with its balances and transactions, and
  the screen state are returned as they were, and the only effect is the error toast.
\<close>

theorem handleSwap_rejects_before_mutation:
  "(amount st = [] \<or> (pf (amount st) = Fin a \<and> a \<le> 0)
       \<or> pf (amount st) = NegZero \<or> pf (amount st) = Infinity True \<longrightarrow>
      handleSwap pf swapAssets ctx st
        = (ctx, st, [ShowToast ''Please enter a valid amount'' error]))
   \<and> (amount st \<noteq> [] \<and> pf (amount st) = Fin a \<and> 0 < a
       \<and> pf (removeCommas (balance (fromAsset st))) = Fin b \<and> b < a \<longrightarrow>
      handleSwap pf swapAssets ctx st = (ctx, st, [ShowToast ''Insufficient balance'' error]))"
  by (auto simp add: handleSwap_def num_le_def num_gt_def num_lt_def rank_def valueOf_def)

text \<open>
  Claim C2 at the amounts \<open>-5\<close> and \<open>2000\<close> against a balance of \<open>1,250.00\<close>,
  with a \<open>swapAssets\<close> that would empty the wallets if it were called.
\<close>

theorem handleSwap_rejects_before_mutation_witness:
  "parseFloat_dec (amount (swapExample\<lparr>amount := ''-5''\<rparr>)) = Fin (- 5) \<and> (- 5 :: rat) \<le> 0
   \<and> handleSwap parseFloat_dec (\<lambda>f t a c. c\<lparr>wallets := [], transactions := []\<rparr>) ctxExample
         (swapExample\<lparr>amount := ''-5''\<rparr>)
       = (ctxExample, swapExample\<lparr>amount := ''-5''\<rparr>,
          [ShowToast ''Please enter a valid amount'' error])
   \<and> amount (swapExample\<lparr>amount := ''2000''\<rparr>) \<noteq> []
   \<and> parseFloat_dec (amount (swapExample\<lparr>amount := ''2000''\<rparr>)) = Fin 2000 \<and> (0 :: rat) < 2000
   \<and> parseFloat_dec (removeCommas (balance (fromAsset (swapExample\<lparr>amount := ''2000''\<rparr>))))
       = Fin 1250
   \<and> (1250 :: rat) < 2000
   \<and> handleSwap parseFloat_dec (\<lambda>f t a c. c\<lparr>wallets := [], transactions := []\<rparr>) ctxExample
         (swapExample\<lparr>amount := ''2000''\<rparr>)
       = (ctxExample, swapExample\<lparr>amount := ''2000''\<rparr>,
          [ShowToast ''Insufficient balance'' error])
   \<and> wallets (fst (handleSwap parseFloat_dec (\<lambda>f t a c. c\<lparr>wallets := [], transactions := []\<rparr>)
         ctxExample swapExample)) \<noteq> wallets ctxExample"
proof -
  have p1: "parseFloat_dec (amount (swapExample\<lparr>amount := ''-5''\<rparr>)) = Fin (- 5)"
    by (simp add: parse_eval dbl_eval num_eval)
  have p2: "parseFloat_dec (amount (swapExample\<lparr>amount := ''2000''\<rparr>)) = Fin 2000"
    by (simp add: parse_eval dbl_eval)
  have p3: "parseFloat_dec (removeCommas (balance (fromAsset (swapExample\<lparr>amount := ''2000''\<rparr>))))
       = Fin 1250"
    by (simp add: swapExample_def parse_eval dbl_eval)
  have p4: "parseFloat_dec (amount swapExample) = Fin 100"
    "parseFloat_dec (removeCommas (balance (fromAsset swapExample))) = Fin 1250"
    by (simp_all add: swapExample_def parse_eval dbl_eval)
  have p5: "wallets (fst (handleSwap parseFloat_dec (\<lambda>f t a c. c\<lparr>wallets := [], transactions := []\<rparr>)
         ctxExample swapExample)) \<noteq> wallets ctxExample"
    by (simp add: handleSwap_def p4 num_eval) (simp add: swapExample_def ctxExample_def)
  from handleSwap_rejects_before_mutation[of "swapExample\<lparr>amount := ''-5''\<rparr>" parseFloat_dec "- 5"
         "\<lambda>f t a c. c\<lparr>wallets := [], transactions := []\<rparr>" ctxExample 0]
       handleSwap_rejects_before_mutation[of "swapExample\<lparr>amount := ''2000''\<rparr>" parseFloat_dec 2000
         "\<lambda>f t a c. c\<lparr>wallets := [], transactions := []\<rparr>" ctxExample 1250]
  show ?thesis using p1 p2 p3 p5 by simp
qed

section \<open>Escrow creation and signing\<close>

text \<open>
  Claim C3: in \<open>handleCreateEscrow\<close> the call of \<open>createEscrow\<close>, which enters the
  escrow with status \<open>pending\<close>, comes before the external call
  \<open>createEscrowOnChain\<close>. When the external call fails, the handler only writes a
  console warning and goes on: the wallet context is the one \<open>createEscrow\<close>
  returned, no further call touches it, and the success toast is shown.
\<close>

theorem handleCreateEscrow_keeps_pending_entry:
  "take 2 (snd (snd (handleCreateEscrow createEscrow createEscrowOnChain nowMs ctx sc)))
     = [CallCreateEscrow (newEscrow nowMs sc),
        CallCreateEscrowOnChain (recipientAddress (contacts ctx) (e_recipient sc)) (e_amount sc)]
   \<and> esc_status (newEscrow nowMs sc) = ''pending''
   \<and> (createEscrowOnChain (recipientAddress (contacts ctx) (e_recipient sc)) (e_amount sc)
         (createEscrow (newEscrow nowMs sc) ctx) = Inl e \<longrightarrow>
       handleCreateEscrow createEscrow createEscrowOnChain nowMs ctx sc
         = (createEscrow (newEscrow nowMs sc) ctx,
            sc\<lparr>activeTab := ''active''\<rparr>,
            [CallCreateEscrow (newEscrow nowMs sc),
             CallCreateEscrowOnChain (recipientAddress (contacts ctx) (e_recipient sc)) (e_amount sc),
             ConsoleWarn ''On-chain escrow simulated'',
             ShowToast ''Escrow Created Successfully'' success]))"
  by (simp add: handleCreateEscrow_def Let_def newEscrow_def split: sum.split)

text \<open>
  Claim C3 for 500.00 USD to Jane Cooper, with a \<open>createEscrow\<close> that puts the entry
  in front of the registry and an on-chain call that always fails.
\<close>

theorem handleCreateEscrow_keeps_pending_entry_witness:
  "(\<lambda>a m c. Inl ''network down'' :: string + WalletCtx)
       (recipientAddress (contacts ctxExample) (e_recipient escrowFormExample))
       (e_amount escrowFormExample)
       ((\<lambda>e c. c\<lparr>escrows := e # escrows c\<rparr>) (newEscrow 1700000123456 escrowFormExample) ctxExample)
     = Inl ''network down''
   \<and> escrows (fst (handleCreateEscrow (\<lambda>e c. c\<lparr>escrows := e # escrows c\<rparr>)
                      (\<lambda>a m c. Inl ''network down'') 1700000123456 ctxExample escrowFormExample))
     = [\<lparr>esc_id = ''123456'', esc_amount = ''500.00 USD'', esc_recipient = ''Jane Cooper'',
         esc_expiryDate = ''7 Days'', esc_status = ''pending''\<rparr>]
   \<and> snd (snd (handleCreateEscrow (\<lambda>e c. c\<lparr>escrows := e # escrows c\<rparr>)
                      (\<lambda>a m c. Inl ''network down'') 1700000123456 ctxExample escrowFormExample))
     = [CallCreateEscrow \<lparr>esc_id = ''123456'', esc_amount = ''500.00 USD'',
          esc_recipient = ''Jane Cooper'', esc_expiryDate = ''7 Days'', esc_status = ''pending''\<rparr>,
        CallCreateEscrowOnChain ''0x7a3f'' ''500.00'',
        ConsoleWarn ''On-chain escrow simulated'',
        ShowToast ''Escrow Created Successfully'' success]"
proof -
  have n: "newEscrow 1700000123456 escrowFormExample
     = \<lparr>esc_id = ''123456'', esc_amount = ''500.00 USD'', esc_recipient = ''Jane Cooper'',
         esc_expiryDate = ''7 Days'', esc_status = ''pending''\<rparr>"
    by (simp add: newEscrow_def newId_def escrowFormExample_def natToDigits.simps digitChar_def Let_def)
  have r: "recipientAddress (contacts ctxExample) (e_recipient escrowFormExample) = ''0x7a3f''"
    by (simp add: recipientAddress_def ctxExample_def escrowFormExample_def)
  have a: "e_amount escrowFormExample = ''500.00''" by (simp add: escrowFormExample_def)
  have c: "escrows ctxExample = []" by (simp add: ctxExample_def)
  from handleCreateEscrow_keeps_pending_entry[of "\<lambda>e c. c\<lparr>escrows := e # escrows c\<rparr>"
         "\<lambda>a m c. Inl ''network down''" 1700000123456 ctxExample escrowFormExample "''network down''"]
  show ?thesis unfolding n r a by (simp add: c)
qed

text \<open>
  Claim C4: \<open>sign(id)\<close> is to take a pending escrow to the status \<open>signed\<close>, moving
  no funds. The handler moves no funds, but it changes nothing at all: for every id it
  returns the wallet context as it was and shows the success toast. The screen offers
  the action on the escrows of the registry whose status is \<open>pending\<close>, and on
  such an escrow, here the one created for 500.00 USD to Jane Cooper, the status is
  still \<open>pending\<close> after the action, where the comment in the handler says that it
  would be updated to \<open>signed\<close>.
\<close>

theorem sign_leaves_status_pending:
  "handleAction releaseEscrow i sign ctx = (ctx, [ShowToast ''Escrow Signed & Approved'' success])
   \<and> set (signOffered ctx) = esc_id ` {e \<in> set (escrows ctx). esc_status e = ''pending''}
   \<and> signOffered (ctxExample\<lparr>escrows := [newEscrow 1700000123456 escrowFormExample]\<rparr>) = [''123456'']
   \<and> map esc_status (escrows (fst (handleAction (\<lambda>i c. c) ''123456'' sign
         (ctxExample\<lparr>escrows := [newEscrow 1700000123456 escrowFormExample]\<rparr>)))) = [''pending'']
   \<and> snd (handleAction (\<lambda>i c. c) ''123456'' sign
         (ctxExample\<lparr>escrows := [newEscrow 1700000123456 escrowFormExample]\<rparr>))
       = [ShowToast ''Escrow Signed & Approved'' success]"
  by (auto simp add: handleAction_def signOffered_def newEscrow_def newId_def escrowFormExample_def
      natToDigits.simps digitChar_def Let_def)

section \<open>Tabular export\<close>

text \<open>
  Claim C5: the tabular export is the header row
  \<open>ID,Type,Amount,Currency,Recipient,Date\<close> followed by one row for each transaction
  of the filtered list, in the order of the list, each row being the six fields in double
  quotes separated by commas; the rows are joined by line feeds. For the single
  transaction T1 the text is the header and the one row of its six fields.
\<close>

theorem csv_export_rows:
  \<open>csvLines ftxs
     = ''ID,Type,Amount,Currency,Recipient,Date''
       # map (\<lambda>tx. ''"'' @ tx_id tx @ ''","'' @ tx_type tx @ ''","'' @ tx_amount tx @ ''","''
                   @ tx_currency tx @ ''","'' @ tx_recipient tx @ ''","'' @ tx_date tx @ ''"'') ftxs
   \<and> length (csvLines ftxs) = 1 + length ftxs
   \<and> fst (exportToCSV ftxs) = join [CHR 0x0A] (csvLines ftxs)
   \<and> fst (exportToCSV [txT1])
     = ''ID,Type,Amount,Currency,Recipient,Date'' @ [CHR 0x0A]
       @ ''"T1","sent","100","USD","Jane","today"''\<close>
proof -
  have rows: \<open>csvLines ftxs
     = ''ID,Type,Amount,Currency,Recipient,Date''
       # map (\<lambda>tx. ''"'' @ tx_id tx @ ''","'' @ tx_type tx @ ''","'' @ tx_amount tx @ ''","''
                   @ tx_currency tx @ ''","'' @ tx_recipient tx @ ''","'' @ tx_date tx @ ''"'') ftxs\<close>
    by (simp add: csvLines_def headers_def csvRow_def quoteCell_def comp_def)
  have len: "length (csvLines ftxs) = 1 + length ftxs"
    by (simp add: csvLines_def)
  have ex: \<open>fst (exportToCSV [txT1])
     = ''ID,Type,Amount,Currency,Recipient,Date'' @ [CHR 0x0A]
       @ ''"T1","sent","100","USD","Jane","today"''\<close>
    by (simp add: exportToCSV_def csvContent_def csvLines_def headers_def csvRow_def
        quoteCell_def txT1_def)
  show ?thesis using rows len ex by (simp add: exportToCSV_def csvContent_def)
qed

section \<open>Filters\<close>

text \<open>
  Claim C7: filtering by type \<open>sent\<close> and then filtering the result by type
  \<open>received\<close> gives the empty list, whatever the other filters are. With the date
  filter \<open>all\<close> the result is decided by the search and type filters alone: no date is
  read, and with no search text and type \<open>all\<close> the list is returned as it is.
\<close>

theorem type_filters_disjoint_and_date_all_identity:
  "filteredTransactions dp2 now2 (filteredTransactions dp1 now1 txs q1 tf_sent d1) q2 tf_received d2 = []
   \<and> filteredTransactions dp now txs q tf df_all
     = filter (\<lambda>tx. (isBlank q \<or> matchesSearch (toLowerCase q) tx)
                   \<and> (tf = tf_all \<or> tx_type tx = filterTypeStr tf)) txs
   \<and> filteredTransactions dp now txs [] tf_all df_all = txs"
proof -
  have sent: "\<And>tx. tx \<in> set (filteredTransactions dp1 now1 txs q1 tf_sent d1) \<Longrightarrow> tx_type tx = ''sent''"
    by (auto simp add: filteredTransactions_def Let_def split: if_splits)
  have "filter (\<lambda>tx. tx_type tx = ''received'') (filteredTransactions dp1 now1 txs q1 tf_sent d1) = []"
    using sent by (auto simp add: filter_empty_conv)
  then have a: "filteredTransactions dp2 now2 (filteredTransactions dp1 now1 txs q1 tf_sent d1) q2 tf_received d2 = []"
    by (simp add: filteredTransactions_def[of dp2] Let_def filter_empty_conv)
  have b: "filteredTransactions dp now txs q tf df_all
     = filter (\<lambda>tx. (isBlank q \<or> matchesSearch (toLowerCase q) tx)
                   \<and> (tf = tf_all \<or> tx_type tx = filterTypeStr tf)) txs"
    by (auto simp add: filteredTransactions_def Let_def intro: filter_cong)
  have c: "filteredTransactions dp now txs [] tf_all df_all = txs"
    by (simp add: filteredTransactions_def isBlank_def)
  show ?thesis using a b c by simp
qed

section \<open>Date filter\<close>

text \<open>Equations that evaluate the string functions on literals.\<close>

lemmas str_eval = toLowerCase_def lowerChar_def matchHere_def isDigit_def isSpace_def

lemma now_kept: "0 \<le> now \<Longrightarrow> parseDate dp now (tx_date tx) = now \<Longrightarrow> inDateRange dp now df tx"
proof -
  assume n: "0 \<le> now" and p: "parseDate dp now (tx_date tx) = now"
  have t: "startOfToday now \<le> now"
    using startOfToday_midnight[OF n] msPerDay_pos by simp
  have w: "weekAgo now \<le> now" using msPerDay_pos by (simp add: weekAgo_eq)
  have m: "monthAgo now \<le> now" using monthAgo_window[of now] msPerDay_pos by linarith
  have y: "yearAgo now \<le> now" using yearAgo_window[of now] msPerDay_pos by linarith
  show ?thesis using t w m y p by (cases df) (simp_all add: inDateRange_def)
qed

lemma inDateRange_cases:
  "inDateRange dp now df_today = (\<lambda>tx. startOfToday now \<le> parseDate dp now (tx_date tx))"
  "inDateRange dp now df_week = (\<lambda>tx. weekAgo now \<le> parseDate dp now (tx_date tx))"
  "inDateRange dp now df_month = (\<lambda>tx. monthAgo now \<le> parseDate dp now (tx_date tx))"
  "inDateRange dp now df_year = (\<lambda>tx. yearAgo now \<le> parseDate dp now (tx_date tx))"
  by (rule ext, simp add: inDateRange_def)+

text \<open>The clock value of the examples, and the dates of the example history.\<close>

lemma now_day:
  "(1700000000000 :: int) div msPerDay = 19675" "(1700000000000 :: int) mod msPerDay = 80000000"
  by (simp_all add: msPerDay_def)

lemma now_civil: "civilFromDays 19675 = (2023, 10, 14)"
  unfolding civilFromDays_def Let_def by simp

lemma now_fields:
  "getFullYear 1700000000000 = 2023" "getMonth 1700000000000 = 10" "getDate 1700000000000 = 14"
  by (simp_all add: getFullYear_def getMonth_def getDate_def now_day now_civil)

lemma now_thresholds:
  "monthAgo 1700000000000 = 1697321600000" "yearAgo 1700000000000 = 1668464000000"
  by (simp_all add: monthAgo_def setMonth_def yearAgo_def setFullYear_def now_fields now_day
      makeDay_def daysFromCivil_def daysBeforeYear_def msPerDay_def)

lemma iso_examples:
  "isoDateOnly ''2023-10-20'' = Some 1697760000000"
  "isoDateOnly ''2020-01-01'' = Some 1577836800000"
  "isoDateOnly ''Oct 24'' = None"
  by (simp_all add: isoDateOnly_def isDigit_def digitVal_def daysFromCivil_def
      daysBeforeYear_def msPerDay_def)

lemma parse_examples:
  "parseDate isoDateOnly 1700000000000 ''Today, 10:45 AM'' = 1700000000000"
  "parseDate isoDateOnly 1700000000000 ''Yesterday'' = 1699913600000"
  "parseDate isoDateOnly 1700000000000 ''3 days ago'' = 1699740800000"
  "parseDate isoDateOnly 1700000000000 ''2023-10-20'' = 1697760000000"
  "parseDate isoDateOnly 1700000000000 ''Oct 24'' = 1700000000000"
  "parseDate isoDateOnly 1700000000000 ''2020-01-01'' = 1577836800000"
  by (simp_all add: parseDate_eq str_eval iso_examples digitVal_def msPerDay_def)

lemma iso_2999: "isoDateOnly ''2999-01-01'' = Some 32472144000000"
  by (simp add: isoDateOnly_def isDigit_def digitVal_def daysFromCivil_def daysBeforeYear_def
      msPerDay_def)

lemma parse_2999: "parseDate isoDateOnly 1700000000000 ''2999-01-01'' = 32472144000000"
  by (simp add: parseDate_eq str_eval iso_2999)

text \<open>
  Claim C6, as stated: the filters \<open>week\<close>, \<open>month\<close> and \<open>year\<close> keep exactly
  the transactions whose date lies in a window that ends at the query time. A
  transaction dated 1 January 2999, after the query time, is kept by all three: the
  filters compare with the start of the window only.
\<close>

theorem date_window_future_counterexample:
  "parseDate isoDateOnly 1700000000000 ''2999-01-01'' = 32472144000000
   \<and> (1700000000000 :: int) < 32472144000000
   \<and> filteredTransactions isoDateOnly 1700000000000 [txT1\<lparr>tx_date := ''2999-01-01''\<rparr>] [] tf_all df_week
       = [txT1\<lparr>tx_date := ''2999-01-01''\<rparr>]
   \<and> filteredTransactions isoDateOnly 1700000000000 [txT1\<lparr>tx_date := ''2999-01-01''\<rparr>] [] tf_all df_month
       = [txT1\<lparr>tx_date := ''2999-01-01''\<rparr>]
   \<and> filteredTransactions isoDateOnly 1700000000000 [txT1\<lparr>tx_date := ''2999-01-01''\<rparr>] [] tf_all df_year
       = [txT1\<lparr>tx_date := ''2999-01-01''\<rparr>]"
proof -
  have m: "monthAgo 1700000000000 \<le> 1700000000000" "yearAgo 1700000000000 \<le> 1700000000000"
    using monthAgo_window[of 1700000000000] yearAgo_window[of 1700000000000] msPerDay_pos
    by linarith+
  show ?thesis using m
    by (simp add: filteredTransactions_def isBlank_def inDateRange_def parse_2999 weekAgo_eq
        msPerDay_def)
qed

text \<open>
  Claim C6, amended: for a query time \<open>now\<close> not before 1970, the filter \<open>today\<close>
  keeps exactly the transactions whose parsed date is at or after the start of the local
  day of \<open>now\<close>, and \<open>week\<close>, \<open>month\<close> and \<open>year\<close> keep exactly those whose
  parsed date is at or after \<open>now\<close> moved back by 7 days, by one calendar month
  (28 to 31 days) and by one calendar year (365 or 366 days): the thresholds roll with
  the query time, and no upper bound is checked. The stored date parses to \<open>now\<close>
  when it contains \<open>today\<close>, to one day earlier when it contains \<open>yesterday\<close>, to
  \<open>N\<close> days earlier when it contains \<open>days ago\<close> after a number \<open>N\<close>, and
  otherwise to what the runtime's date parser makes of it, or to \<open>now\<close> when that is
  no date; a transaction whose date parses to \<open>now\<close> passes every date filter.
\<close>

theorem date_filter_lower_bounds:
  assumes "0 \<le> now"
  shows
   "filteredTransactions dp now txs q tf df_today
      = filter (\<lambda>tx. now - now mod msPerDay \<le> parseDate dp now (tx_date tx))
          (filteredTransactions dp now txs q tf df_all)
    \<and> filteredTransactions dp now txs q tf df_week
      = filter (\<lambda>tx. now - 7 * msPerDay \<le> parseDate dp now (tx_date tx))
          (filteredTransactions dp now txs q tf df_all)
    \<and> filteredTransactions dp now txs q tf df_month
      = filter (\<lambda>tx. monthAgo now \<le> parseDate dp now (tx_date tx))
          (filteredTransactions dp now txs q tf df_all)
    \<and> now - 31 * msPerDay \<le> monthAgo now \<and> monthAgo now \<le> now - 28 * msPerDay
    \<and> filteredTransactions dp now txs q tf df_year
      = filter (\<lambda>tx. yearAgo now \<le> parseDate dp now (tx_date tx))
          (filteredTransactions dp now txs q tf df_all)
    \<and> now - 366 * msPerDay \<le> yearAgo now \<and> yearAgo now \<le> now - 365 * msPerDay
    \<and> parseDate dp now s =
        (if includes_str (toLowerCase s) ''today'' then now
         else if includes_str (toLowerCase s) ''yesterday'' then now - msPerDay
         else if includes_str (toLowerCase s) ''days ago'' \<and> matchDaysAgo (toLowerCase s) \<noteq> None
           then now - int (digitsVal 0 (the (matchDaysAgo (toLowerCase s)))) * msPerDay
         else (case dp s of None \<Rightarrow> now | Some t \<Rightarrow> t))
    \<and> (parseDate dp now (tx_date tx) = now \<longrightarrow> inDateRange dp now df tx)"
proof -
  have today: "filteredTransactions dp now txs q tf df_today
      = filter (\<lambda>tx. now - now mod msPerDay \<le> parseDate dp now (tx_date tx))
          (filteredTransactions dp now txs q tf df_all)"
    by (simp add: filtered_date inDateRange_cases startOfToday_midnight[OF assms])
  have week: "filteredTransactions dp now txs q tf df_week
      = filter (\<lambda>tx. now - 7 * msPerDay \<le> parseDate dp now (tx_date tx))
          (filteredTransactions dp now txs q tf df_all)"
    by (simp add: filtered_date inDateRange_cases weekAgo_eq)
  have month: "filteredTransactions dp now txs q tf df_month
      = filter (\<lambda>tx. monthAgo now \<le> parseDate dp now (tx_date tx))
          (filteredTransactions dp now txs q tf df_all)"
    by (simp add: filtered_date inDateRange_cases)
  have year: "filteredTransactions dp now txs q tf df_year
      = filter (\<lambda>tx. yearAgo now \<le> parseDate dp now (tx_date tx))
          (filteredTransactions dp now txs q tf df_all)"
    by (simp add: filtered_date inDateRange_cases)
  have mw: "now - 31 * msPerDay \<le> monthAgo now \<and> monthAgo now \<le> now - 28 * msPerDay"
    using monthAgo_window[of now] by linarith
  have yw: "now - 366 * msPerDay \<le> yearAgo now \<and> yearAgo now \<le> now - 365 * msPerDay"
    using yearAgo_window[of now] by linarith
  have kept: "parseDate dp now (tx_date tx) = now \<longrightarrow> inDateRange dp now df tx"
    using now_kept[OF assms] by blast
  show ?thesis
    using today week month year mw yw kept parseDate_eq[of dp now s] by blast
qed

text \<open>
  The amended claim C6 on the example history at the clock value 1700000000000: the
  dates \<open>Today, 10:45 AM\<close>, \<open>Yesterday\<close>, \<open>3 days ago\<close>, the ISO dates
  \<open>2023-10-20\<close> and \<open>2020-01-01\<close>, and \<open>Oct 24\<close>, which the example parser
  does not read.
\<close>

theorem date_filter_lower_bounds_witness:
  "(0 :: int) \<le> 1700000000000
   \<and> parseDate isoDateOnly 1700000000000 ''Today, 10:45 AM'' = 1700000000000
   \<and> parseDate isoDateOnly 1700000000000 ''Yesterday'' = 1699913600000
   \<and> parseDate isoDateOnly 1700000000000 ''3 days ago'' = 1699740800000
   \<and> parseDate isoDateOnly 1700000000000 ''2023-10-20'' = 1697760000000
   \<and> parseDate isoDateOnly 1700000000000 ''Oct 24'' = 1700000000000
   \<and> parseDate isoDateOnly 1700000000000 ''2020-01-01'' = 1577836800000
   \<and> monthAgo 1700000000000 = 1697321600000
   \<and> yearAgo 1700000000000 = 1668464000000
   \<and> map tx_id (filteredTransactions isoDateOnly 1700000000000 historyExample [] tf_all df_today)
       = [''A'', ''E'']
   \<and> map tx_id (filteredTransactions isoDateOnly 1700000000000 historyExample [] tf_all df_week)
       = [''A'', ''B'', ''C'', ''E'']
   \<and> map tx_id (filteredTransactions isoDateOnly 1700000000000 historyExample [] tf_all df_month)
       = [''A'', ''B'', ''C'', ''D'', ''E'']
   \<and> map tx_id (filteredTransactions isoDateOnly 1700000000000 historyExample [] tf_all df_year)
       = [''A'', ''B'', ''C'', ''D'', ''E'']"
proof -
  have n: "(0 :: int) \<le> 1700000000000" by simp
  have a: "filteredTransactions isoDateOnly 1700000000000 historyExample [] tf_all df_all
             = historyExample"
    by (simp add: filteredTransactions_def isBlank_def)
  note inst = date_filter_lower_bounds[OF n, of isoDateOnly historyExample "[]" tf_all
               "''Oct 24''" "txT1" df_all]
  show ?thesis
    using inst unfolding a
    by (simp add: parse_examples now_thresholds now_day historyExample_def txT1_def)
qed

section \<open>Rates\<close>

text \<open>
  Claim C8, as stated: the rate lookup returns the stored rate of a known symbol. For a
  symbol whose stored rate is 0 it returns 1.
\<close>

theorem getRate_zero_rate_counterexample:
  "[''SUI'' \<mapsto> (0::rat)] ''SUI'' = Some 0
   \<and> getRate [''SUI'' \<mapsto> 0] ''SUI'' = 1
   \<and> getRate [''SUI'' \<mapsto> 0] ''SUI'' \<noteq> 0"
  by (simp add: getRate_def)

text \<open>
  Claim C8, amended: the rate lookup returns the stored rate of a symbol whose stored
  rate is not 0, and 1 for a symbol that is absent from the prices; it never fails and
  never returns 0. The swap quote multiplies and divides by rates read through this
  lookup, and the sent and received totals sum \<open>amount * rate\<close> with the rate read
  through it, the net flow being their difference: a transaction in a currency without a
  price counts with its amount.
\<close>

theorem getRate_fallback:
  "(ps k = Some r \<and> r \<noteq> 0 \<longrightarrow> getRate ps k = r)
   \<and> (ps k = None \<longrightarrow> getRate ps k = 1)
   \<and> getRate ps k \<noteq> 0
   \<and> (amount st \<noteq> [] \<and> pf (amount st) = Fin a \<and> 0 < a \<longrightarrow>
        quoteOutput pf ps st
          = Some (num_div (num_mul (Fin a) (Fin (getRate ps (symbol (fromAsset st)))))
                    (Fin (getRate ps (symbol (toAsset st))))))
   \<and> txValue pf ps tx
       = num_mul (pf (removeCommas (tx_amount tx))) (Fin (getRate ps (tx_currency tx)))
   \<and> totalSent (stats pf ps ftxs)
       = foldl (\<lambda>acc tx. num_add acc (txValue pf ps tx)) (Fin 0)
           (filter (\<lambda>tx. tx_type tx = ''sent'') ftxs)
   \<and> totalReceived (stats pf ps ftxs)
       = foldl (\<lambda>acc tx. num_add acc (txValue pf ps tx)) (Fin 0)
           (filter (\<lambda>tx. tx_type tx = ''received'') ftxs)
   \<and> netFlow (stats pf ps ftxs)
       = num_sub (totalReceived (stats pf ps ftxs)) (totalSent (stats pf ps ftxs))
   \<and> (ps (tx_currency tx) = None \<and> isDouble (pf (removeCommas (tx_amount tx))) \<longrightarrow>
        txValue pf ps tx = pf (removeCommas (tx_amount tx)))"
proof -
  have v: "ps (tx_currency tx) = None \<and> isDouble (pf (removeCommas (tx_amount tx))) \<longrightarrow>
        txValue pf ps tx = pf (removeCommas (tx_amount tx))"
    by (simp add: txValue_def getRate_def num_mul_one)
  have q: "amount st \<noteq> [] \<and> pf (amount st) = Fin a \<and> 0 < a \<longrightarrow>
        quoteOutput pf ps st
          = Some (num_div (num_mul (Fin a) (Fin (getRate ps (symbol (fromAsset st)))))
                    (Fin (getRate ps (symbol (toAsset st)))))"
    by (simp add: quoteOutput_value)
  have g: "(ps k = Some r \<and> r \<noteq> 0 \<longrightarrow> getRate ps k = r) \<and> (ps k = None \<longrightarrow> getRate ps k = 1)"
    by (simp add: getRate_def)
  have s: "totalSent (stats pf ps ftxs)
       = foldl (\<lambda>acc tx. num_add acc (txValue pf ps tx)) (Fin 0)
           (filter (\<lambda>tx. tx_type tx = ''sent'') ftxs)"
    "totalReceived (stats pf ps ftxs)
       = foldl (\<lambda>acc tx. num_add acc (txValue pf ps tx)) (Fin 0)
           (filter (\<lambda>tx. tx_type tx = ''received'') ftxs)"
    "netFlow (stats pf ps ftxs)
       = num_sub (totalReceived (stats pf ps ftxs)) (totalSent (stats pf ps ftxs))"
    by (simp_all add: stats_def sumValues_def Let_def)
  have t: "txValue pf ps tx
       = num_mul (pf (removeCommas (tx_amount tx))) (Fin (getRate ps (tx_currency tx)))"
    by (simp add: txValue_def)
  show ?thesis using v q g s t getRate_nonzero[of ps k] by blast
qed

text \<open>
  The amended claim C8 on the prices SUI 1.5 and USDC 1.0: the symbols NGN and USD have
  no price.
\<close>

theorem getRate_fallback_witness:
  "pricesExample ''SUI'' = Some (3 / 2) \<and> (3 / 2 :: rat) \<noteq> 0
   \<and> getRate pricesExample ''SUI'' = 3 / 2
   \<and> pricesExample ''NGN'' = None \<and> getRate pricesExample ''NGN'' = 1
   \<and> pricesExample (tx_currency txT1) = None
   \<and> isDouble (parseFloat_dec (removeCommas (tx_amount txT1)))
   \<and> txValue parseFloat_dec pricesExample txT1 = Fin 100
   \<and> amount swapExample \<noteq> [] \<and> parseFloat_dec (amount swapExample) = Fin 100 \<and> (0::rat) < 100
   \<and> quoteOutput parseFloat_dec pricesExample
        (swapExample\<lparr>toAsset := (toAsset swapExample)\<lparr>symbol := ''NGN''\<rparr>\<rparr>) = Some (Fin 150)
   \<and> totalSent (stats parseFloat_dec pricesExample
        [txT1, txT1\<lparr>tx_amount := ''1,000'', tx_currency := ''SUI''\<rparr>]) = Fin 1600"
proof -
  have p: "pricesExample ''SUI'' = Some (3 / 2)" "pricesExample ''NGN'' = None"
    "pricesExample (tx_currency txT1) = None"
    by (simp_all add: pricesExample_def txT1_def)
  have a: "parseFloat_dec (removeCommas (tx_amount txT1)) = Fin 100"
    "parseFloat_dec ''100'' = Fin 100" "parseFloat_dec (removeCommas ''1,000'') = Fin 1000"
    by (simp_all add: txT1_def parse_eval dbl_eval)
  have i: "isDouble (Fin 100)"
    by (simp add: isDouble_def dbl_eval)
  have s: "amount swapExample = ''100''" "symbol (fromAsset swapExample) = ''SUI''"
    by (simp_all add: swapExample_def)
  have t: "tx_type txT1 = ''sent''" "tx_currency txT1 = ''USD''" "pricesExample ''USD'' = None"
    by (simp_all add: txT1_def pricesExample_def)
  have g: "getRate pricesExample ''USD'' = 1" "getRate pricesExample ''SUI'' = 3 / 2"
    "getRate pricesExample ''NGN'' = 1"
    by (simp_all add: getRate_def pricesExample_def)
  have m: "num_mul (Fin 100) (Fin (3 / 2)) = Fin 150" "num_div (Fin 150) (Fin 1) = Fin 150"
    "num_mul (Fin 100) (Fin 1) = Fin 100" "num_mul (Fin 1000) (Fin (3 / 2)) = Fin 1500"
    "num_add (Fin 0) (Fin 100) = Fin 100" "num_add (Fin 100) (Fin 1500) = Fin 1600"
    by (simp_all add: num_eval dbl_eval)
  from getRate_fallback[of pricesExample "''SUI''" "3 / 2"
         "swapExample\<lparr>toAsset := (toAsset swapExample)\<lparr>symbol := ''NGN''\<rparr>\<rparr>"
         parseFloat_dec 100 txT1 "[txT1, txT1\<lparr>tx_amount := ''1,000'', tx_currency := ''SUI''\<rparr>]"]
       getRate_fallback[of pricesExample "''NGN''" 1 swapExample parseFloat_dec 100
         "txT1\<lparr>tx_amount := ''1,000'', tx_currency := ''SUI''\<rparr>" "[]"]
  show ?thesis using p a s t i by (simp add: g m)
qed

text \<open>
  Claim C9: two runs that differ only in the flag \<open>useMesh\<close> compute the same quote
  and display the same estimate, and \<open>handleSwap\<close> makes the same calls with the same
  arguments and leaves the same wallet context.
\<close>

theorem quote_ignores_useMesh:
  "quoteOutput pf ps (st\<lparr>useMesh := b\<rparr>) = quoteOutput pf ps st
   \<and> estimatedOutput (updateEstimate pf ps (st\<lparr>useMesh := b\<rparr>))
     = estimatedOutput (updateEstimate pf ps st)
   \<and> fst (handleSwap pf swapAssets ctx (st\<lparr>useMesh := b\<rparr>)) = fst (handleSwap pf swapAssets ctx st)
   \<and> snd (snd (handleSwap pf swapAssets ctx (st\<lparr>useMesh := b\<rparr>)))
     = snd (snd (handleSwap pf swapAssets ctx st))"
  by (simp add: quoteOutput_def updateEstimate_def handleSwap_def split: option.split)

lemma getRate_zero_as_absent: "getRate (ps(k \<mapsto> 0)) = getRate (ps(k := None))"
  by (rule ext) (simp add: getRate_def)

text \<open>
  Claim C10: a symbol whose stored rate is exactly 0 is treated as a symbol without a
  price: its rate reads as 1. A positive amount of such an asset is quoted as the
  amount times 1 divided by the rate of the target, and a positive amount swapped into
  it as the amount times the rate of the source divided by 1. In the statistics the
  sent and received totals sum, from 0, the amount of each transaction times its rate,
  and a transaction in that currency enters with its amount times 1, which is its
  amount, not zero; the net flow is the received total less the sent one. The quote,
  the displayed estimate and the statistics are what they are when the symbol is
  removed from the prices.
\<close>

theorem zero_rate_valued_at_parity:
  "getRate (ps(k \<mapsto> 0)) k = 1
   \<and> (amount st \<noteq> [] \<and> pf (amount st) = Fin a \<and> 0 < a \<and> symbol (fromAsset st) = k \<longrightarrow>
        quoteOutput pf (ps(k \<mapsto> 0)) st
          = Some (num_div (num_mul (Fin a) (Fin 1))
                    (Fin (getRate (ps(k \<mapsto> 0)) (symbol (toAsset st))))))
   \<and> (amount st \<noteq> [] \<and> pf (amount st) = Fin a \<and> 0 < a \<and> symbol (toAsset st) = k \<longrightarrow>
        quoteOutput pf (ps(k \<mapsto> 0)) st
          = Some (num_div (num_mul (Fin a) (Fin (getRate (ps(k \<mapsto> 0)) (symbol (fromAsset st)))))
                    (Fin 1)))
   \<and> (tx_currency tx = k \<longrightarrow>
        txValue pf (ps(k \<mapsto> 0)) tx = num_mul (pf (removeCommas (tx_amount tx))) (Fin 1))
   \<and> (tx_currency tx = k \<and> isDouble (pf (removeCommas (tx_amount tx))) \<longrightarrow>
        txValue pf (ps(k \<mapsto> 0)) tx = pf (removeCommas (tx_amount tx)))
   \<and> totalSent (stats pf (ps(k \<mapsto> 0)) ftxs)
       = foldl (\<lambda>acc tx. num_add acc (txValue pf (ps(k \<mapsto> 0)) tx)) (Fin 0)
           (filter (\<lambda>tx. tx_type tx = ''sent'') ftxs)
   \<and> totalReceived (stats pf (ps(k \<mapsto> 0)) ftxs)
       = foldl (\<lambda>acc tx. num_add acc (txValue pf (ps(k \<mapsto> 0)) tx)) (Fin 0)
           (filter (\<lambda>tx. tx_type tx = ''received'') ftxs)
   \<and> netFlow (stats pf (ps(k \<mapsto> 0)) ftxs)
       = num_sub (totalReceived (stats pf (ps(k \<mapsto> 0)) ftxs))
           (totalSent (stats pf (ps(k \<mapsto> 0)) ftxs))
   \<and> quoteOutput pf (ps(k \<mapsto> 0)) st = quoteOutput pf (ps(k := None)) st
   \<and> estimatedOutput (updateEstimate pf (ps(k \<mapsto> 0)) st)
     = estimatedOutput (updateEstimate pf (ps(k := None)) st)
   \<and> stats pf (ps(k \<mapsto> 0)) ftxs = stats pf (ps(k := None)) ftxs"
proof -
  have g: "getRate (ps(k \<mapsto> 0)) k = 1" by (simp add: getRate_def)
  have q1: "amount st \<noteq> [] \<and> pf (amount st) = Fin a \<and> 0 < a \<and> symbol (fromAsset st) = k \<longrightarrow>
        quoteOutput pf (ps(k \<mapsto> 0)) st
          = Some (num_div (num_mul (Fin a) (Fin 1))
                    (Fin (getRate (ps(k \<mapsto> 0)) (symbol (toAsset st)))))"
    using g by (auto simp add: quoteOutput_value)
  have q2: "amount st \<noteq> [] \<and> pf (amount st) = Fin a \<and> 0 < a \<and> symbol (toAsset st) = k \<longrightarrow>
        quoteOutput pf (ps(k \<mapsto> 0)) st
          = Some (num_div (num_mul (Fin a) (Fin (getRate (ps(k \<mapsto> 0)) (symbol (fromAsset st)))))
                    (Fin 1))"
    using g by (auto simp add: quoteOutput_value)
  have v1: "tx_currency tx = k \<longrightarrow>
        txValue pf (ps(k \<mapsto> 0)) tx = num_mul (pf (removeCommas (tx_amount tx))) (Fin 1)"
    using g by (auto simp add: txValue_def)
  have v2: "tx_currency tx = k \<and> isDouble (pf (removeCommas (tx_amount tx))) \<longrightarrow>
        txValue pf (ps(k \<mapsto> 0)) tx = pf (removeCommas (tx_amount tx))"
    using g by (auto simp add: txValue_def num_mul_one)
  have s: "totalSent (stats pf (ps(k \<mapsto> 0)) ftxs)
       = foldl (\<lambda>acc tx. num_add acc (txValue pf (ps(k \<mapsto> 0)) tx)) (Fin 0)
           (filter (\<lambda>tx. tx_type tx = ''sent'') ftxs)"
    "totalReceived (stats pf (ps(k \<mapsto> 0)) ftxs)
       = foldl (\<lambda>acc tx. num_add acc (txValue pf (ps(k \<mapsto> 0)) tx)) (Fin 0)
           (filter (\<lambda>tx. tx_type tx = ''received'') ftxs)"
    "netFlow (stats pf (ps(k \<mapsto> 0)) ftxs)
       = num_sub (totalReceived (stats pf (ps(k \<mapsto> 0)) ftxs))
           (totalSent (stats pf (ps(k \<mapsto> 0)) ftxs))"
    by (simp_all add: stats_def sumValues_def Let_def)
  have e1: "quoteOutput pf (ps(k \<mapsto> 0)) st = quoteOutput pf (ps(k := None)) st"
    by (simp add: quoteOutput_def getRate_zero_as_absent)
  have tv: "txValue pf (ps(k \<mapsto> 0)) = txValue pf (ps(k := None))"
    by (rule ext) (simp add: txValue_def getRate_zero_as_absent)
  have e2: "stats pf (ps(k \<mapsto> 0)) ftxs = stats pf (ps(k := None)) ftxs"
    by (simp add: stats_def sumValues_def tv)
  have e3: "estimatedOutput (updateEstimate pf (ps(k \<mapsto> 0)) st)
     = estimatedOutput (updateEstimate pf (ps(k := None)) st)"
    by (simp add: updateEstimate_def e1)
  show ?thesis using g q1 q2 v1 v2 s e1 e2 e3 by blast
qed

text \<open>
  Claim C10 on the prices SUI 0 and USDC 1.0: 100 SUI are quoted as 100 USDC and shown
  as \<open>100.00\<close>, and a history of one transaction that sent 100 SUI has the sent total
  100 and the net flow -100.
\<close>

theorem zero_rate_valued_at_parity_witness:
  "amount swapExample \<noteq> [] \<and> parseFloat_dec (amount swapExample) = Fin 100 \<and> (0::rat) < 100
   \<and> symbol (fromAsset swapExample) = ''SUI''
   \<and> quoteOutput parseFloat_dec (pricesExample(''SUI'' \<mapsto> 0)) swapExample = Some (Fin 100)
   \<and> estimatedOutput (updateEstimate parseFloat_dec (pricesExample(''SUI'' \<mapsto> 0)) swapExample)
       = ''100.00''
   \<and> symbol (toAsset (swapExample\<lparr>toAsset := fromAsset swapExample, fromAsset := toAsset swapExample\<rparr>))
       = ''SUI''
   \<and> quoteOutput parseFloat_dec (pricesExample(''SUI'' \<mapsto> 0))
        (swapExample\<lparr>toAsset := fromAsset swapExample, fromAsset := toAsset swapExample\<rparr>)
       = Some (Fin 100)
   \<and> tx_currency (txT1\<lparr>tx_currency := ''SUI''\<rparr>) = ''SUI''
   \<and> isDouble (parseFloat_dec (removeCommas (tx_amount (txT1\<lparr>tx_currency := ''SUI''\<rparr>))))
   \<and> txValue parseFloat_dec (pricesExample(''SUI'' \<mapsto> 0)) (txT1\<lparr>tx_currency := ''SUI''\<rparr>) = Fin 100
   \<and> totalSent (stats parseFloat_dec (pricesExample(''SUI'' \<mapsto> 0)) [txT1\<lparr>tx_currency := ''SUI''\<rparr>])
       = Fin 100
   \<and> totalReceived (stats parseFloat_dec (pricesExample(''SUI'' \<mapsto> 0)) [txT1\<lparr>tx_currency := ''SUI''\<rparr>])
       = Fin 0
   \<and> netFlow (stats parseFloat_dec (pricesExample(''SUI'' \<mapsto> 0)) [txT1\<lparr>tx_currency := ''SUI''\<rparr>])
       = Fin (- 100)"
proof -
  let ?ps = "pricesExample(''SUI'' \<mapsto> 0)"
  let ?rev = "swapExample\<lparr>toAsset := fromAsset swapExample, fromAsset := toAsset swapExample\<rparr>"
  let ?tx = "txT1\<lparr>tx_currency := ''SUI''\<rparr>"
  have a: "amount swapExample = ''100''" "amount ?rev = ''100''"
    "symbol (fromAsset swapExample) = ''SUI''" "symbol (toAsset swapExample) = ''USDC''"
    by (simp_all add: swapExample_def)
  have p: "parseFloat_dec ''100'' = Fin 100"
    "parseFloat_dec (removeCommas (tx_amount txT1)) = Fin 100"
    by (simp_all add: txT1_def parse_eval dbl_eval)
  have i: "isDouble (Fin 100)" by (simp add: isDouble_def dbl_eval)
  have g: "getRate ?ps ''USDC'' = 1" "getRate ?ps ''SUI'' = 1"
    by (simp_all add: getRate_def pricesExample_def)
  have m: "num_mul (Fin 100) (Fin 1) = Fin 100" "num_div (Fin 100) (Fin 1) = Fin 100"
    "num_add (Fin 0) (Fin 100) = Fin 100" "num_sub (Fin 0) (Fin 100) = Fin (- 100)"
    by (simp_all add: num_eval dbl_eval)
  have f: "toLocaleString (Fin 100) = ''100.00''" by (simp add: fmt_eval)
  have t: "tx_type ?tx = ''sent''" "tx_currency ?tx = ''SUI''" by (simp_all add: txT1_def)
  have q: "quoteOutput parseFloat_dec ?ps swapExample = Some (Fin 100)"
    using quoteOutput_value[of swapExample parseFloat_dec 100 ?ps] by (simp add: a p g m)
  have u: "estimatedOutput (updateEstimate parseFloat_dec ?ps swapExample) = ''100.00''"
    by (simp add: updateEstimate_def q f)
  from zero_rate_valued_at_parity[of ?ps "''SUI''" swapExample parseFloat_dec 100 ?tx "[?tx]"]
       zero_rate_valued_at_parity[of ?ps "''SUI''" ?rev parseFloat_dec 100 ?tx "[?tx]"]
  show ?thesis using u by (simp add: a p i g m t)
qed

end
